theory Spec2Isabelle
  imports Complex_Main "HOL-Library.Word" "HOL-Library.AList"
begin

section \<open>The eval server: a shallow embedding\<close>

text \<open>
  The repository holds two variants of the server: \<^verbatim>\<open>src/index.ts\<close> and a second file
  (\<^verbatim>\<open>src/unnamed/part_000\<close>). Functions that are the same in both keep the source's name;
  where the two differ, the definition taken from \<^verbatim>\<open>src/index.ts\<close> carries the suffix
  \<open>_index\<close> and the one taken from \<^verbatim>\<open>part_000\<close> the suffix \<open>_part\<close>.

  Everything outside the repository is a parameter or an input of the model: what the
  guest computed, what \<^verbatim>\<open>dns.lookup\<close> answered, what undici's \<^verbatim>\<open>fetch\<close> returned or
  threw, \<^verbatim>\<open>ip.isPrivate\<close>, \<^verbatim>\<open>JSON.stringify\<close>, \<^verbatim>\<open>Date.now\<close>. JavaScript is
  single-threaded, so an asynchronous function is modelled by the pieces that run
  without interruption between two \<^verbatim>\<open>await\<close>s, each a function on the server's state.
\<close>

subsection \<open>Strings\<close>

text \<open>
  A JavaScript string is a sequence of UTF-16 code units; \<^verbatim>\<open>length\<close>, \<^verbatim>\<open>slice\<close> and the
  regular expressions used here work on code units. \<open>lit\<close> embeds an ASCII literal.
\<close>

type_synonym jsstring = "16 word list"

definition lit :: "string \<Rightarrow> jsstring" where
  "lit s = map of_char s"

text \<open>\<^verbatim>\<open>s.slice(0, n)\<close> for a non-negative \<open>n\<close>.\<close>

definition slice0 :: "nat \<Rightarrow> jsstring \<Rightarrow> jsstring" where
  "slice0 n s = take n s"

text \<open>
  \<^verbatim>\<open>/return|await/.test(code)\<close>: the regular expression is an alternation of two literal
  words without anchors, so the test scans the string for a position where one of the
  words starts.
\<close>

fun starts_with :: "'a list \<Rightarrow> 'a list \<Rightarrow> bool" where
  "starts_with [] s = True"
| "starts_with (p # ps) [] = False"
| "starts_with (p # ps) (c # cs) = (p = c \<and> starts_with ps cs)"

fun has_match :: "'a list \<Rightarrow> 'a list \<Rightarrow> bool" where
  "has_match p [] = starts_with p []"
| "has_match p (c # cs) = (starts_with p (c # cs) \<or> has_match p cs)"

definition test_return_await :: "jsstring \<Rightarrow> bool" where
  "test_return_await code = (has_match (lit ''return'') code \<or> has_match (lit ''await'') code)"

text \<open>
  \<^verbatim>\<open>code.replace(/[\\"']/g, "\\$&")\<close>: every backslash (0x5C), double quote (0x22) and
  single quote (0x27) is replaced by a backslash followed by the matched character.
\<close>

definition backslash :: "16 word" where "backslash = 0x5C"
definition dquote :: "16 word" where "dquote = 0x22"
definition squote :: "16 word" where "squote = 0x27"

fun escape_quotes :: "jsstring \<Rightarrow> jsstring" where
  "escape_quotes [] = []"
| "escape_quotes (c # cs) =
     (if c = backslash \<or> c = dquote \<or> c = squote
      then backslash # c # escape_quotes cs
      else c # escape_quotes cs)"

subsection \<open>Code Shaper (the branch in \<^verbatim>\<open>eval\<close>)\<close>

text \<open>
  The script handed to \<^verbatim>\<open>context.eval\<close>. \<open>prelude\<close> is the prelude template string, which
  does not depend on the code. The second component tells whether the branch also ran
  the extra \<^verbatim>\<open>evalClosure\<close> that binds \<^verbatim>\<open>evaluate\<close> (the asynchronous branch does).
\<close>

definition shape_code :: "jsstring \<Rightarrow> jsstring \<Rightarrow> jsstring \<times> bool" where
  "shape_code prelude code =
     (if test_return_await code
      then (prelude @ lit ''toString((async function evaluate() { '' @ code @ lit '' })());'', True)
      else (prelude @ lit ''toString(eval('' @ [squote] @ escape_quotes code @ [squote] @ lit ''))'',
            False))"

subsection \<open>Errors, promises and outcomes\<close>

text \<open>
  A thrown value as the handlers below read it: \<^verbatim>\<open>e.constructor.name\<close>, \<^verbatim>\<open>e.cause\<close> (absent, or
  as the template literal prints it) and \<^verbatim>\<open>e.message\<close>.
\<close>

datatype js_error = JsError (ctor: jsstring) (cause: "jsstring option") (message: jsstring)

text \<open>
  What a promise of the server settles with. \<^verbatim>\<open>add\<close> rejects with a plain string,
  everything else rejects with an error object.
\<close>

datatype js_result = RString jsstring | RUndefined

datatype reason = ReasonString jsstring | ReasonError js_error

datatype outcome = Resolved js_result | Rejected reason

text \<open>\<^verbatim>\<open>String(result)\<close> in the route handler.\<close>

fun String_of :: "js_result \<Rightarrow> jsstring" where
  "String_of (RString s) = s"
| "String_of RUndefined = lit ''undefined''"

subsection \<open>Isolate Runner (\<^verbatim>\<open>eval\<close>)\<close>

text \<open>
  What the promise chain \<^verbatim>\<open>isolate.createContext().then(...)\<close> yields before its
  \<^verbatim>\<open>.catch\<close>: the value \<^verbatim>\<open>context.eval\<close> resolved with (a string, \<^verbatim>\<open>undefined\<close>/\<^verbatim>\<open>null\<close>, or another
  primitive, which has no \<^verbatim>\<open>slice\<close> and is given here by the \<^verbatim>\<open>TypeError\<close> that calling
  \<^verbatim>\<open>slice\<close> on it throws), or what \<^verbatim>\<open>createContext\<close>, the injections or the guest run (a
  guest exception, the 5000 ms timeout) rejected with.

  A rejection value is met by the handler of \<^verbatim>\<open>.catch\<close>, which reads
  \<^verbatim>\<open>e.constructor.name\<close> and \<^verbatim>\<open>e.message\<close>. Either it can read them (\<open>ErrorValue\<close>), or the
  value is \<^verbatim>\<open>null\<close> or \<^verbatim>\<open>undefined\<close>, as after a guest's \<^verbatim>\<open>throw null\<close>, and reading
  \<^verbatim>\<open>e.constructor\<close> throws (\<open>Unreadable\<close>, given by the \<^verbatim>\<open>TypeError\<close> of that read).
\<close>

datatype guest_value = VString jsstring | VNullish | VOther js_error

datatype thrown = ErrorValue js_error | Unreadable js_error

datatype chain_result = ChainValue guest_value | ChainError thrown

text \<open>The prefix \<^verbatim>\<open>'\<dots> '\<close> of the sentinel: U+1F6AB as a surrogate pair, then a space.\<close>

definition no_entry :: jsstring where
  "no_entry = [0xD83D, 0xDEAB, 0x20]"

text \<open>
  \<^verbatim>\<open>.catch((e) => { return '\<dots> ' + e.constructor.name + ': ' + e.message; })\<close>: the chain
  after it yields a value (\<open>Inr\<close>), or rejects with what the handler threw (\<open>Inl\<close>).
\<close>

fun catch_chain :: "chain_result \<Rightarrow> js_error + guest_value" where
  "catch_chain (ChainValue v) = Inr v"
| "catch_chain (ChainError (ErrorValue e)) =
     Inr (VString (no_entry @ ctor e @ lit '': '' @ message e))"
| "catch_chain (ChainError (Unreadable t)) = Inl t"

text \<open>
  \<^verbatim>\<open>(result ?? null)?.slice(0, n)\<close>: \<^verbatim>\<open>undefined\<close> for a nullish result, the slice of a string,
  and a \<^verbatim>\<open>TypeError\<close> for a value without \<^verbatim>\<open>slice\<close>; the \<^verbatim>\<open>try\<close> of \<^verbatim>\<open>part_000\<close> and the
  \<^verbatim>\<open>async\<close> function of \<^verbatim>\<open>src/index.ts\<close> turn the throw into a rejection.
\<close>

fun slice_result :: "nat \<Rightarrow> guest_value \<Rightarrow> outcome" where
  "slice_result n (VString s) = Resolved (RString (slice0 n s))"
| "slice_result n VNullish = Resolved RUndefined"
| "slice_result n (VOther e) = Rejected (ReasonError e)"

text \<open>
  The steps of one evaluation that matter below, in the order they happen.
  \<open>Dispose\<close> is the call \<^verbatim>\<open>isolate.dispose()\<close>; the library makes the call throw for an
  isolate that it has disposed itself, as it does when the memory limit is exceeded.
  \<open>Settle\<close> is a call of the evaluation's \<^verbatim>\<open>resolve\<close>/\<^verbatim>\<open>reject\<close> (or the return or throw of
  the \<^verbatim>\<open>async\<close> function); only the first one settles the promise.
\<close>

datatype action = NewIsolate | Dispose | ResetCounter | Settle outcome

fun is_settle :: "action \<Rightarrow> bool" where
  "is_settle (Settle oc) = True"
| "is_settle a = False"

text \<open>The outcome delivered to the consumer loop: the first \<open>Settle\<close>, if there is one.\<close>

fun delivered :: "action list \<Rightarrow> outcome option" where
  "delivered [] = None"
| "delivered (Settle oc # as) = Some oc"
| "delivered (a # as) = delivered as"

text \<open>The steps that happened before the outcome was delivered.\<close>

definition before_delivery :: "action list \<Rightarrow> action list" where
  "before_delivery tr = takeWhile (\<lambda>a. \<not> is_settle a) tr"

text \<open>
  The end of \<^verbatim>\<open>eval\<close>, from the moment the chain in front of \<^verbatim>\<open>.catch\<close> has settled with \<open>r\<close>:
  the handler of \<^verbatim>\<open>.catch\<close> runs on a rejection, then \<^verbatim>\<open>.finally(() => isolate.dispose())\<close>.
  \<open>dispose_error\<close> is the error that \<^verbatim>\<open>isolate.dispose()\<close> threw, if it threw. A throw in
  \<^verbatim>\<open>.finally\<close> rejects the awaited chain with that error, and a throw of the handler
  rejects it with the handler's error; in both cases the \<^verbatim>\<open>await\<close> throws, so the counter
  reset and the slice are skipped and the evaluation is rejected. Otherwise the counter
  is reset and the sliced result is delivered; \<open>n\<close> is the bound of the slice.
\<close>

definition finish_eval :: "nat \<Rightarrow> chain_result \<Rightarrow> js_error option \<Rightarrow> action list" where
  "finish_eval n r dispose_error =
     Dispose #
     (case dispose_error of
        Some d \<Rightarrow> [Settle (Rejected (ReasonError d))]
      | None \<Rightarrow>
          (case catch_chain r of
             Inl t \<Rightarrow> [Settle (Rejected (ReasonError t))]
           | Inr v \<Rightarrow> [ResetCounter, Settle (slice_result n v)]))"

text \<open>
  \<^verbatim>\<open>eval\<close> of \<^verbatim>\<open>part_000\<close>. The inputs are what the isolate library did:
  \<open>ctor_error\<close>, the error \<^verbatim>\<open>new Isolate\<close> threw, if it threw;
  \<open>catastrophic\<close>, the error \<^verbatim>\<open>onCatastrophicError\<close> was called with while the chain was
  pending, if it was called;
  \<open>chain\<close>, what the chain in front of \<^verbatim>\<open>.catch\<close> yielded, or \<open>None\<close> if it never settled;
  \<open>dispose_error\<close>, the error \<^verbatim>\<open>isolate.dispose()\<close> threw, if it threw.
  The handler \<^verbatim>\<open>onCatastrophicError: (e) => { reject(e); }\<close> rejects at once; the rest runs
  when the chain settles. Every throw inside the \<^verbatim>\<open>try\<close> ends in \<^verbatim>\<open>reject(e)\<close>.
\<close>

definition eval_part ::
  "js_error option \<Rightarrow> js_error option \<Rightarrow> chain_result option \<Rightarrow> js_error option
     \<Rightarrow> action list" where
  "eval_part ctor_error catastrophic chain dispose_error =
     (case ctor_error of
        Some e \<Rightarrow> [Settle (Rejected (ReasonError e))]
      | None \<Rightarrow>
          [NewIsolate]
          @ (case catastrophic of
               Some e \<Rightarrow> [Settle (Rejected (ReasonError e))]
             | None \<Rightarrow> [])
          @ (case chain of
               None \<Rightarrow> []
             | Some r \<Rightarrow> finish_eval 3000 r dispose_error))"

text \<open>
  \<^verbatim>\<open>eval\<close> of \<^verbatim>\<open>src/index.ts\<close>: no handler for catastrophic errors, no \<^verbatim>\<open>try\<close> around the
  body (a throw rejects the \<^verbatim>\<open>async\<close> function's promise), and \<^verbatim>\<open>slice(0, 10000)\<close>.
\<close>

definition eval_index ::
  "js_error option \<Rightarrow> chain_result option \<Rightarrow> js_error option \<Rightarrow> action list" where
  "eval_index ctor_error chain dispose_error =
     (case ctor_error of
        Some e \<Rightarrow> [Settle (Rejected (ReasonError e))]
      | None \<Rightarrow>
          [NewIsolate]
          @ (case chain of
               None \<Rightarrow> []
             | Some r \<Rightarrow> finish_eval 10000 r dispose_error))"

subsection \<open>Request Handler: the response envelope\<close>

text \<open>
  The envelope sent for an outcome of \<^verbatim>\<open>add\<close>. \<^verbatim>\<open>duration\<close> is a wall-clock measurement and is
  left out. In \<^verbatim>\<open>part_000\<close> the failure envelope has no \<^verbatim>\<open>statusCode\<close> field.
\<close>

record envelope =
  http_status :: nat
  data :: "jsstring list"
  statusCode :: "nat option"
  errors :: "jsstring list"

fun respond_part :: "outcome \<Rightarrow> envelope" where
  "respond_part (Resolved r) =
     \<lparr>http_status = 200, data = [String_of r], statusCode = Some 200, errors = []\<rparr>"
| "respond_part (Rejected e) =
     \<lparr>http_status = 500, data = [], statusCode = None,
      errors = [lit ''Internal server error'']\<rparr>"

text \<open>
  In \<^verbatim>\<open>src/index.ts\<close> the \<^verbatim>\<open>.catch\<close> sends the 500 envelope; the 200 envelope that the
  handler tries to send after it is refused by the HTTP layer, since the response has
  been sent. The envelope the client receives is the first.
\<close>

fun respond_index :: "outcome \<Rightarrow> envelope" where
  "respond_index (Resolved r) =
     \<lparr>http_status = 200, data = [String_of r], statusCode = Some 200, errors = []\<rparr>"
| "respond_index (Rejected e) =
     \<lparr>http_status = 500, data = [], statusCode = Some 500,
      errors = [lit ''Internal server error'']\<rparr>"

subsection \<open>JSON values\<close>

text \<open>
  \<^verbatim>\<open>msg\<close> and the \<^verbatim>\<open>options\<close> of a guest \<^verbatim>\<open>fetch\<close> are values copied in from JSON or from the
  guest. A value that may be \<^verbatim>\<open>undefined\<close> is a \<open>json option\<close>.
\<close>

datatype json =
  JNull | JBool bool | JNum rat | JStr jsstring | JArr "json list" | JObj "(jsstring \<times> json) list"

text \<open>\<^verbatim>\<open>v?.k\<close>: \<^verbatim>\<open>undefined\<close> on \<^verbatim>\<open>undefined\<close> and \<^verbatim>\<open>null\<close>, the property of an object. The keys read
  below are not properties of strings, numbers, booleans or arrays.\<close>

fun get_prop :: "json option \<Rightarrow> jsstring \<Rightarrow> json option" where
  "get_prop (Some (JObj kvs)) k = map_of kvs k"
| "get_prop v k = None"

text \<open>\<^verbatim>\<open>a ?? b\<close>\<close>

fun coalesce :: "json option \<Rightarrow> json \<Rightarrow> json" where
  "coalesce None b = b"
| "coalesce (Some JNull) b = b"
| "coalesce (Some a) b = a"

text \<open>\<^verbatim>\<open>!!v\<close>\<close>

fun truthy :: "json option \<Rightarrow> bool" where
  "truthy None = False"
| "truthy (Some JNull) = False"
| "truthy (Some (JBool b)) = b"
| "truthy (Some (JNum n)) = (n \<noteq> 0)"
| "truthy (Some (JStr s)) = (s \<noteq> [])"
| "truthy (Some (JArr xs)) = True"
| "truthy (Some (JObj kvs)) = True"

text \<open>\<^verbatim>\<open>delete v.k\<close> and the update of the object under a key, both without effect on a
  value that is not an object.\<close>

fun delete_key :: "jsstring \<Rightarrow> json \<Rightarrow> json" where
  "delete_key k (JObj kvs) = JObj (filter (\<lambda>kv. fst kv \<noteq> k) kvs)"
| "delete_key k v = v"

fun update_under :: "jsstring \<Rightarrow> (json \<Rightarrow> json) \<Rightarrow> json \<Rightarrow> json" where
  "update_under k f (JObj kvs) = JObj (map (\<lambda>kv. if fst kv = k then (fst kv, f (snd kv)) else kv) kvs)"
| "update_under k f v = v"

text \<open>
  The four \<^verbatim>\<open>delete\<close>s at the start of \<^verbatim>\<open>eval\<close>: \<^verbatim>\<open>msg.channel.data.command_stats\<close>,
  \<^verbatim>\<open>msg.channel.commands\<close>, \<^verbatim>\<open>msg.command.description\<close>, \<^verbatim>\<open>msg.channel.blocks\<close>.
\<close>

definition trim_msg :: "json option \<Rightarrow> json option" where
  "trim_msg msg =
     map_option
       (\<lambda>m. update_under (lit ''channel'') (delete_key (lit ''blocks''))
              (update_under (lit ''command'') (delete_key (lit ''description''))
                (update_under (lit ''channel'') (delete_key (lit ''commands''))
                  (update_under (lit ''channel'')
                     (update_under (lit ''data'') (delete_key (lit ''command_stats''))) m))))
       msg"

subsection \<open>\<^verbatim>\<open>potatData\<close> (\<^verbatim>\<open>part_000\<close> only)\<close>

record EvalPotatData =
  user :: "json option"
  channel :: "json option"
  id' :: jsstring
  timestamp :: json
  platform :: json
  isSilent :: bool

text \<open>
  The template literal \<^verbatim>\<open>`${v}`\<close>: a string is itself; for another value the conversion
  \<^verbatim>\<open>String(v)\<close> of the language is the parameter \<open>to_string\<close>.
\<close>

fun template :: "(json \<Rightarrow> jsstring) \<Rightarrow> json \<Rightarrow> jsstring" where
  "template to_string (JStr s) = s"
| "template to_string v = to_string v"

text \<open>\<open>now\<close> is the value of \<^verbatim>\<open>Date.now()\<close>. The object is built after the \<^verbatim>\<open>delete\<close>s.\<close>

definition potatData :: "(json \<Rightarrow> jsstring) \<Rightarrow> rat \<Rightarrow> json option \<Rightarrow> EvalPotatData" where
  "potatData to_string now msg0 =
     (let msg = trim_msg msg0 in
      \<lparr>user = get_prop msg (lit ''user''),
       channel = get_prop msg (lit ''channel''),
       id' = template to_string (coalesce (get_prop msg (lit ''id'')) (JStr [])),
       timestamp = coalesce (get_prop msg (lit ''timestamp'')) (JNum now),
       platform = coalesce (get_prop msg (lit ''platform'')) (JStr (lit ''PotatEval'')),
       isSilent = truthy (get_prop (get_prop msg (lit ''command'')) (lit ''silent''))\<rparr>)"

subsection \<open>The server object\<close>

record config =
  port :: nat
  auth :: jsstring
  maxFetchConcurrency :: "int option"

text \<open>
  A waiter holds the \<^verbatim>\<open>resolve\<close> and \<^verbatim>\<open>reject\<close> of one promise; \<open>w_promise\<close> names that
  promise.
\<close>

record waiter =
  w_code :: jsstring
  w_msg :: "json option"
  w_promise :: nat

text \<open>
  The fields of the class are \<open>maxConcurrency\<close>, \<open>queue\<close>, \<open>processing\<close> and
  \<open>concurrencyCounter\<close>. The others hold what JavaScript keeps in closures and
  continuations: the state of each promise made by \<^verbatim>\<open>add\<close> (\<open>None\<close> while pending), the
  waiter whose evaluation the loop of \<^verbatim>\<open>process\<close> is awaiting, the evaluations started so
  far, and the number of calls of \<^verbatim>\<open>fetchImplement\<close> suspended at \<^verbatim>\<open>await fetch\<close>.
\<close>

record server =
  maxConcurrency :: int
  queue :: "waiter list"
  processing :: bool
  concurrencyCounter :: int
  promises :: "nat \<Rightarrow> outcome option"
  next_promise :: nat
  awaited :: "waiter option"
  started :: "waiter list"
  in_flight :: nat

text \<open>The constructor: \<^verbatim>\<open>config.maxFetchConcurrency ?? 5\<close>.\<close>

definition new_server :: "config \<Rightarrow> server" where
  "new_server cfg =
     \<lparr>maxConcurrency = (case maxFetchConcurrency cfg of None \<Rightarrow> 5 | Some n \<Rightarrow> n),
      queue = [], processing = False, concurrencyCounter = 0,
      promises = (\<lambda>p. None), next_promise = 0, awaited = None, started = [], in_flight = 0\<rparr>"

text \<open>Calling \<^verbatim>\<open>resolve\<close> or \<^verbatim>\<open>reject\<close> of promise \<open>p\<close>: without effect once \<open>p\<close> is settled.\<close>

definition settle :: "nat \<Rightarrow> outcome \<Rightarrow> server \<Rightarrow> server" where
  "settle p oc s =
     (case promises s p of
        None \<Rightarrow> s\<lparr>promises := (promises s)(p := Some oc)\<rparr>
      | Some oc' \<Rightarrow> s)"

subsection \<open>Admission Queue (\<^verbatim>\<open>add\<close>, \<^verbatim>\<open>process\<close>)\<close>

text \<open>
  The loop of \<^verbatim>\<open>process\<close> up to its \<^verbatim>\<open>await\<close>: with an empty queue it clears
  \<open>processing\<close> and ends; otherwise it shifts the head, calls \<^verbatim>\<open>eval\<close> on it and waits.
\<close>

definition process_loop :: "server \<Rightarrow> server" where
  "process_loop s =
     (case queue s of
        [] \<Rightarrow> s\<lparr>processing := False\<rparr>
      | next # rest \<Rightarrow> s\<lparr>queue := rest, awaited := Some next, started := started s @ [next]\<rparr>)"

definition process :: "server \<Rightarrow> server" where
  "process s = (if processing s then s else process_loop (s\<lparr>processing := True\<rparr>))"

text \<open>
  The loop after its \<^verbatim>\<open>await\<close>: \<^verbatim>\<open>.then(resolve).catch(reject)\<close> hands the outcome of the
  evaluation to the waiter, and the loop goes round.
\<close>

definition process_resume :: "outcome \<Rightarrow> server \<Rightarrow> server" where
  "process_resume oc s =
     (case awaited s of
        None \<Rightarrow> s
      | Some w \<Rightarrow> process_loop ((settle (w_promise w) oc s)\<lparr>awaited := None\<rparr>))"

text \<open>The loop resumed once for each outcome of a list, in order.\<close>

fun drain :: "outcome list \<Rightarrow> server \<Rightarrow> server" where
  "drain [] s = s"
| "drain (oc # ocs) s = drain ocs (process_resume oc s)"

definition queue_full :: reason where
  "queue_full = ReasonString (lit ''Queue is full'')"

text \<open>
  \<^verbatim>\<open>add\<close>: the executor of the new promise runs at once. The result is the new promise
  and the server after the call.
\<close>

definition add :: "jsstring \<Rightarrow> json option \<Rightarrow> server \<Rightarrow> nat \<times> server" where
  "add code msg s =
     (let p = next_promise s;
          s0 = s\<lparr>next_promise := p + 1, promises := (promises s)(p := None)\<rparr>;
          s1 = (if length (queue s0) > 20 then settle p (Rejected queue_full) s0 else s0);
          s2 = s1\<lparr>queue := queue s1 @ [\<lparr>w_code = code, w_msg = msg, w_promise = p\<rparr>]\<rparr>
      in (p, process s2))"

text \<open>The states in which the loop is consistent with its flag: it is awaiting an
  evaluation exactly when \<open>processing\<close> is set, and waiters queue up only while it is.\<close>

definition consistent :: "server \<Rightarrow> bool" where
  "consistent s = ((processing s = (awaited s \<noteq> None)) \<and> (processing s \<or> queue s = []))"

subsection \<open>Outbound HTTP Bridge (\<^verbatim>\<open>fetchImplement\<close>)\<close>

text \<open>Decimal digits of an array index, for the keys of a spread array or string.\<close>

function dec :: "nat \<Rightarrow> string" where
  "dec n = (if n < 10 then [char_of (48 + n)] else dec (n div 10) @ [char_of (48 + n mod 10)])"
  by pat_completeness auto
termination
  by (relation "measure (\<lambda>n. n)") auto

text \<open>
  The own enumerable properties that \<^verbatim>\<open>{...(v ?? {})}\<close> copies: those of an object, the
  indexed elements of an array or of a string, none of another value. An object has each
  key once: a list with a repeated key stands for the object of its first entries, as
  \<open>get_prop\<close> reads it. The entries are in the order of the list; the language
  enumerates keys that are array indices before the others, which changes nothing below,
  since such a key has no second spelling.
\<close>

definition own_entries :: "json option \<Rightarrow> (jsstring \<times> json) list" where
  "own_entries v =
     AList.clearjunk
       (case v of
          Some (JObj kvs) \<Rightarrow> kvs
        | Some (JArr xs) \<Rightarrow> zip (map (\<lambda>i. lit (dec i)) [0..<length xs]) xs
        | Some (JStr cs) \<Rightarrow> zip (map (\<lambda>i. lit (dec i)) [0..<length cs]) (map (\<lambda>c. JStr [c]) cs)
        | _ \<Rightarrow> [])"

definition own_props :: "json option \<Rightarrow> (jsstring \<rightharpoonup> json)" where
  "own_props v = map_of (own_entries v)"

definition user_agent :: jsstring where
  "user_agent =
     lit ''Sandbox Unsafe JavaScript Execution Environment - https://github.com/RyanPotat/eval-server/''"

text \<open>
  The second argument of undici's \<^verbatim>\<open>fetch\<close>, an object literal: a property is a value
  copied from the guest's options, the abort signal of \<^verbatim>\<open>this.timeout()\<close> with its delay in
  milliseconds, a dispatcher, or the headers object, given by its entries in order.
\<close>

datatype init_value =
  Given json
| TimeoutSignal nat
| EvalDispatcher jsstring
| GuardedAgent
| Headers "(jsstring \<times> json) list"

type_synonym fetch_init = "jsstring \<rightharpoonup> init_value"

text \<open>
  \<^verbatim>\<open>part_000\<close>; \<open>stringify\<close> is \<^verbatim>\<open>JSON.stringify\<close> on the \<^verbatim>\<open>potatData\<close> object. In the object
  literal \<^verbatim>\<open>{...h, 'User-Agent': a, 'x-potat-data': b}\<close> a key that \<open>h\<close> has keeps its place
  and takes the new value, and a key that \<open>h\<close> lacks is added at the end.
\<close>

definition fetch_init_part ::
  "(EvalPotatData \<Rightarrow> jsstring) \<Rightarrow> EvalPotatData \<Rightarrow> json option \<Rightarrow> fetch_init" where
  "fetch_init_part stringify pd options =
     (map_option Given \<circ> own_props options)
       (lit ''signal'' \<mapsto> TimeoutSignal 5000,
        lit ''dispatcher'' \<mapsto> GuardedAgent,
        lit ''headers'' \<mapsto>
          Headers (AList.update (lit ''x-potat-data'') (JStr (stringify pd))
                    (AList.update (lit ''User-Agent'') (JStr user_agent)
                      (own_entries (get_prop options (lit ''headers''))))))"

text \<open>\<^verbatim>\<open>src/index.ts\<close>\<close>

definition fetch_init_index :: "jsstring \<Rightarrow> json option \<Rightarrow> fetch_init" where
  "fetch_init_index url options =
     (map_option Given \<circ> own_props options)
       (lit ''signal'' \<mapsto> TimeoutSignal 5000,
        lit ''dispatcher'' \<mapsto> EvalDispatcher url,
        lit ''redirect'' \<mapsto> Given (JStr (lit ''error'')),
        lit ''headers'' \<mapsto>
          Headers (AList.update (lit ''User-Agent'') (JStr user_agent)
                    (own_entries (get_prop options (lit ''headers'')))))"

text \<open>
  Modelled from the Fetch standard as undici implements it: the header list of the
  request is filled from the entries of the headers object in order; header names are
  case-insensitive, so entries whose keys differ only in the case of ASCII letters are
  values of one header, and the request carries them as one header with the values
  joined by \<^verbatim>\<open>", "\<close> in that order. \<open>header_sent init n\<close> lists the values that the
  request carries under the name \<open>n\<close>, empty when the headers object gives none. Headers
  that \<^verbatim>\<open>fetch\<close> supplies by itself for names the object does not give (\<^verbatim>\<open>accept\<close> and the
  like) are outside the model.
\<close>

definition lower_ascii :: "16 word \<Rightarrow> 16 word" where
  "lower_ascii c = (if 0x41 \<le> c \<and> c \<le> 0x5A then c + 0x20 else c)"

definition header_name :: "jsstring \<Rightarrow> jsstring" where
  "header_name k = map lower_ascii k"

definition values_named :: "jsstring \<Rightarrow> (jsstring \<times> json) list \<Rightarrow> json list" where
  "values_named n es = map snd (filter (\<lambda>kv. header_name (fst kv) = header_name n) es)"

definition header_sent :: "fetch_init \<Rightarrow> jsstring \<Rightarrow> json list" where
  "header_sent init n =
     (case init (lit ''headers'') of Some (Headers es) \<Rightarrow> values_named n es | _ \<Rightarrow> [])"

text \<open>The object handed back to the guest.\<close>

datatype body = Text jsstring | Parsed json

record response =
  body :: body
  status :: int

text \<open>
  The first part of \<^verbatim>\<open>fetchImplement\<close>, up to \<^verbatim>\<open>await fetch(...)\<close>: it returns at once (the
  \<^verbatim>\<open>finally\<close> has run), or it is suspended on the request it made. An error thrown
  while the arguments of \<^verbatim>\<open>fetch\<close> are built is one of the ways that wait can end.
\<close>

datatype fetch_step = Returned response | Awaiting jsstring fetch_init

definition too_many :: response where
  "too_many = \<lparr>body = Text (lit ''Too many requests.''), status = 429\<rparr>"

definition fetchImplement_part ::
  "(EvalPotatData \<Rightarrow> jsstring) \<Rightarrow> EvalPotatData \<Rightarrow> jsstring \<Rightarrow> json option \<Rightarrow> server
     \<Rightarrow> fetch_step \<times> server" where
  "fetchImplement_part stringify pd url options s =
     (let s1 = s\<lparr>concurrencyCounter := concurrencyCounter s + 1\<rparr> in
      if concurrencyCounter s1 > maxConcurrency s1
      then (Returned too_many, s1\<lparr>concurrencyCounter := concurrencyCounter s1 - 1\<rparr>)
      else (Awaiting url (fetch_init_part stringify pd options),
            s1\<lparr>in_flight := in_flight s1 + 1\<rparr>))"

definition fetchImplement_index :: "jsstring \<Rightarrow> json option \<Rightarrow> server \<Rightarrow> fetch_step \<times> server" where
  "fetchImplement_index url options s =
     (let s1 = s\<lparr>concurrencyCounter := concurrencyCounter s + 1\<rparr> in
      if concurrencyCounter s1 > maxConcurrency s1
      then (Returned too_many, s1\<lparr>concurrencyCounter := concurrencyCounter s1 - 1\<rparr>)
      else (Awaiting url (fetch_init_index url options),
            s1\<lparr>in_flight := in_flight s1 + 1\<rparr>))"

text \<open>
  How the suspended part ends: the response arrived (its text and its status), or
  something in the \<^verbatim>\<open>try\<close> block threw.
\<close>

datatype fetch_result = Arrived jsstring int | Thrown js_error

text \<open>\<^verbatim>\<open>parseBlob\<close>; \<open>parse\<close> is \<^verbatim>\<open>JSON.parse\<close>, \<open>None\<close> where it throws.\<close>

definition parseBlob :: "(jsstring \<Rightarrow> json option) \<Rightarrow> jsstring \<Rightarrow> body" where
  "parseBlob parse text = (case parse text of Some v \<Rightarrow> Parsed v | None \<Rightarrow> Text text)"

text \<open>\<^verbatim>\<open>e.cause ?? e.message\<close>\<close>

definition cause_or_message :: "js_error \<Rightarrow> jsstring" where
  "cause_or_message e = (case cause e of Some c \<Rightarrow> c | None \<Rightarrow> message e)"

text \<open>The \<^verbatim>\<open>catch\<close> block of \<^verbatim>\<open>part_000\<close> and of \<^verbatim>\<open>src/index.ts\<close>.\<close>

definition catch_part :: "js_error \<Rightarrow> response" where
  "catch_part e =
     (if ctor e = lit ''DOMException''
      then \<lparr>body = Text (lit ''Request timed out.''), status = 408\<rparr>
      else \<lparr>body = Text (lit ''Request failed - '' @ ctor e @ lit '': '' @ cause_or_message e),
            status = 400\<rparr>)"

definition catch_index :: "js_error \<Rightarrow> response" where
  "catch_index e =
     (if ctor e = lit ''DOMException''
      then \<lparr>body = Text (lit ''Request timed out.''), status = 408\<rparr>
      else \<lparr>body = Text (lit ''Reqest failed - '' @ ctor e @ lit '': '' @ cause_or_message e),
            status = 400\<rparr>)"

text \<open>The rest of \<^verbatim>\<open>fetchImplement\<close>, from the \<^verbatim>\<open>await\<close> to the \<^verbatim>\<open>finally\<close>. It runs for a
  suspended call, so \<open>in_flight\<close> is positive when it does (\<open>step\<close> below checks it).\<close>

definition fetchImplement_resume_part ::
  "(jsstring \<Rightarrow> json option) \<Rightarrow> fetch_result \<Rightarrow> server \<Rightarrow> response \<times> server" where
  "fetchImplement_resume_part parse r s =
     ((case r of
         Arrived text st \<Rightarrow> \<lparr>body = parseBlob parse text, status = st\<rparr>
       | Thrown e \<Rightarrow> catch_part e),
      s\<lparr>concurrencyCounter := concurrencyCounter s - 1, in_flight := in_flight s - 1\<rparr>)"

definition fetchImplement_resume_index ::
  "(jsstring \<Rightarrow> json option) \<Rightarrow> fetch_result \<Rightarrow> server \<Rightarrow> response \<times> server" where
  "fetchImplement_resume_index parse r s =
     ((case r of
         Arrived text st \<Rightarrow> \<lparr>body = parseBlob parse text, status = st\<rparr>
       | Thrown e \<Rightarrow> catch_index e),
      s\<lparr>concurrencyCounter := concurrencyCounter s - 1, in_flight := in_flight s - 1\<rparr>)"

subsection \<open>The counter over a run of the server\<close>

text \<open>The effect of an evaluation's steps on the server: \<^verbatim>\<open>this.concurrencyCounter = 0\<close>.\<close>

fun apply_action :: "action \<Rightarrow> server \<Rightarrow> server" where
  "apply_action ResetCounter s = s\<lparr>concurrencyCounter := 0\<rparr>"
| "apply_action a s = s"

definition eval_effect :: "action list \<Rightarrow> server \<Rightarrow> server" where
  "eval_effect tr s = fold apply_action tr s"

text \<open>
  What can happen between two \<^verbatim>\<open>await\<close>s while guests run: the guest calls \<^verbatim>\<open>fetch\<close>, a
  suspended \<^verbatim>\<open>fetchImplement\<close> is resumed, or the chain of the running evaluation
  settles (and \<^verbatim>\<open>isolate.dispose()\<close> does not throw). A call can only be resumed if one is
  suspended; \<open>run\<close> is \<open>None\<close> for a sequence that asks for more.
\<close>

datatype event =
  GuestFetch EvalPotatData jsstring "json option"
| FetchSettled fetch_result
| EvalSettled chain_result

fun step ::
  "(EvalPotatData \<Rightarrow> jsstring) \<Rightarrow> (jsstring \<Rightarrow> json option) \<Rightarrow> event \<Rightarrow> server \<Rightarrow> server option" where
  "step stringify parse (GuestFetch pd url options) s =
     Some (snd (fetchImplement_part stringify pd url options s))"
| "step stringify parse (FetchSettled r) s =
     (if in_flight s = 0 then None else Some (snd (fetchImplement_resume_part parse r s)))"
| "step stringify parse (EvalSettled r) s =
     Some (eval_effect (eval_part None None (Some r) None) s)"

fun run ::
  "(EvalPotatData \<Rightarrow> jsstring) \<Rightarrow> (jsstring \<Rightarrow> json option) \<Rightarrow> event list \<Rightarrow> server \<Rightarrow> server option" where
  "run stringify parse [] s = Some s"
| "run stringify parse (ev # evs) s =
     (case step stringify parse ev s of None \<Rightarrow> None | Some s' \<Rightarrow> run stringify parse evs s')"

text \<open>No evaluation of the sequence ends while one of its requests is still in flight.\<close>

fun quiet_ends ::
  "(EvalPotatData \<Rightarrow> jsstring) \<Rightarrow> (jsstring \<Rightarrow> json option) \<Rightarrow> event list \<Rightarrow> server \<Rightarrow> bool" where
  "quiet_ends stringify parse [] s = True"
| "quiet_ends stringify parse (ev # evs) s =
     ((case ev of EvalSettled r \<Rightarrow> in_flight s = 0 | _ \<Rightarrow> True)
      \<and> (case step stringify parse ev s of
           None \<Rightarrow> True
         | Some s' \<Rightarrow> quiet_ends stringify parse evs s'))"

subsection \<open>Address guard on DNS answers\<close>

text \<open>
  What \<^verbatim>\<open>dns.lookup\<close> hands to its callback: an error, or the address (one string, or an
  array whose elements are strings or \<^verbatim>\<open>{address, family}\<close> objects) and the family.
\<close>

datatype lookup_address = AddressString jsstring | LookupAddress jsstring nat

datatype lookup_answer = OneAddress jsstring | AddressArray "lookup_address list"

datatype dns_reply = DnsFailed js_error | DnsAnswer lookup_answer "nat option"

text \<open>\<^verbatim>\<open>typeof lookupAddress === 'string' ? lookupAddress : lookupAddress.address\<close>\<close>

fun address_of :: "lookup_address \<Rightarrow> jsstring" where
  "address_of (AddressString a) = a"
| "address_of (LookupAddress a fam) = a"

text \<open>\<^verbatim>\<open>Array.isArray(addr) ? addr : [addr]\<close>\<close>

fun addresses_of :: "lookup_answer \<Rightarrow> lookup_address list" where
  "addresses_of (OneAddress a) = [AddressString a]"
| "addresses_of (AddressArray xs) = xs"

definition access_denied :: "jsstring \<Rightarrow> js_error" where
  "access_denied i = JsError (lit ''Error'') None (lit ''Access to '' @ i @ lit '' is disallowed'')"

text \<open>\<^verbatim>\<open>throwIfPrivateIP\<close>; \<open>isPrivate\<close> is \<^verbatim>\<open>ip.isPrivate\<close> of the \<^verbatim>\<open>ip\<close> package.\<close>

definition throwIfPrivateIP :: "(jsstring \<Rightarrow> bool) \<Rightarrow> jsstring \<Rightarrow> js_error + unit" where
  "throwIfPrivateIP isPrivate i = (if isPrivate i then Inl (access_denied i) else Inr ())"

text \<open>The \<^verbatim>\<open>for\<close> loop of \<^verbatim>\<open>dnsLookup\<close>: it stops at the first throw.\<close>

fun check_addresses :: "(jsstring \<Rightarrow> bool) \<Rightarrow> lookup_address list \<Rightarrow> js_error + unit" where
  "check_addresses isPrivate [] = Inr ()"
| "check_addresses isPrivate (a # as) =
     (case throwIfPrivateIP isPrivate (address_of a) of
        Inl e \<Rightarrow> Inl e
      | Inr u \<Rightarrow> check_addresses isPrivate as)"

text \<open>\<^verbatim>\<open>dnsLookup\<close> of \<^verbatim>\<open>part_000\<close>: the arguments with which it calls \<^verbatim>\<open>cb\<close>.\<close>

datatype lookup_callback = CbError js_error | CbResult lookup_answer "nat option"

definition dnsLookup :: "(jsstring \<Rightarrow> bool) \<Rightarrow> dns_reply \<Rightarrow> lookup_callback" where
  "dnsLookup isPrivate reply =
     (case reply of
        DnsFailed err \<Rightarrow> CbError err
      | DnsAnswer addr fam \<Rightarrow>
          (case check_addresses isPrivate (addresses_of addr) of
             Inl e \<Rightarrow> CbError e
           | Inr u \<Rightarrow> CbResult addr fam))"

text \<open>What the network layer does for one request.\<close>

datatype net_action =
  TcpConnect lookup_answer
| SocketError js_error
| InnerDispatch
| HandlerError js_error
| Uncaught js_error

text \<open>
  Modelled from the documentation of Node's \<^verbatim>\<open>net\<close> module, which undici's
  \<^verbatim>\<open>connect: { lookup }\<close> option reaches: the socket resolves the host name with the given
  \<^verbatim>\<open>lookup\<close> function, connects to an address that the callback delivered, and on a
  callback error fails without connecting.
\<close>

definition connect_part :: "(jsstring \<Rightarrow> bool) \<Rightarrow> dns_reply \<Rightarrow> net_action list" where
  "connect_part isPrivate reply =
     (case dnsLookup isPrivate reply of
        CbError e \<Rightarrow> [SocketError e]
      | CbResult addr fam \<Rightarrow> [TcpConnect addr])"

text \<open>
  undici's \<^verbatim>\<open>fetch\<close> rejects a failed connection with \<^verbatim>\<open>TypeError: fetch failed\<close> whose
  \<^verbatim>\<open>cause\<close> is the socket's error; the template literal prints an \<^verbatim>\<open>Error\<close> as its name, a
  colon and its message.
\<close>

definition fetch_failed :: "js_error \<Rightarrow> js_error" where
  "fetch_failed e =
     JsError (lit ''TypeError'') (Some (ctor e @ lit '': '' @ message e)) (lit ''fetch failed'')"

text \<open>
  \<^verbatim>\<open>EvalDispatcher.dispatch\<close> of \<^verbatim>\<open>src/index.ts\<close>. \<^verbatim>\<open>dns.lookup\<close> only starts the lookup; the
  statement after it, \<^verbatim>\<open>this.dispatcher.dispatch(options, handler)\<close>, runs before the
  callback can. The callback reports a lookup error and rethrows it, or reports the first
  private address and returns.
\<close>

fun first_private :: "(jsstring \<Rightarrow> bool) \<Rightarrow> lookup_address list \<Rightarrow> jsstring option" where
  "first_private isPrivate [] = None"
| "first_private isPrivate (a # as) =
     (if isPrivate (address_of a) then Some (address_of a) else first_private isPrivate as)"

definition dispatch_index :: "(jsstring \<Rightarrow> bool) \<Rightarrow> dns_reply \<Rightarrow> net_action list" where
  "dispatch_index isPrivate reply =
     InnerDispatch #
     (case reply of
        DnsFailed err \<Rightarrow> [HandlerError err, Uncaught err]
      | DnsAnswer addr fam \<Rightarrow>
          (case first_private isPrivate (addresses_of addr) of
             Some a \<Rightarrow> [HandlerError (access_denied a)]
           | None \<Rightarrow> []))"

subsection \<open>Authentication\<close>

text \<open>
  The UTF-8 bytes of a string, as Node writes a string into a buffer: a surrogate pair
  is one code point of four bytes, a lone surrogate is written as U+FFFD.
\<close>

definition utf8_of_code_point :: "nat \<Rightarrow> 8 word list" where
  "utf8_of_code_point n =
     (if n < 0x80 then [of_nat n]
      else if n < 0x800 then [of_nat (0xC0 + n div 64), of_nat (0x80 + n mod 64)]
      else if n < 0x10000 then
        [of_nat (0xE0 + n div 4096), of_nat (0x80 + (n div 64) mod 64), of_nat (0x80 + n mod 64)]
      else
        [of_nat (0xF0 + n div 262144), of_nat (0x80 + (n div 4096) mod 64),
         of_nat (0x80 + (n div 64) mod 64), of_nat (0x80 + n mod 64)])"

definition is_high_surrogate :: "16 word \<Rightarrow> bool" where
  "is_high_surrogate c = (0xD800 \<le> unat c \<and> unat c < 0xDC00)"

definition is_low_surrogate :: "16 word \<Rightarrow> bool" where
  "is_low_surrogate c = (0xDC00 \<le> unat c \<and> unat c < 0xE000)"

fun utf8 :: "jsstring \<Rightarrow> 8 word list" where
  "utf8 [] = []"
| "utf8 [c] =
     (if is_high_surrogate c \<or> is_low_surrogate c then utf8_of_code_point 0xFFFD
      else utf8_of_code_point (unat c))"
| "utf8 (c # d # cs) =
     (if is_high_surrogate c \<and> is_low_surrogate d
      then utf8_of_code_point (0x10000 + (unat c - 0xD800) * 1024 + (unat d - 0xDC00)) @ utf8 cs
      else if is_high_surrogate c \<or> is_low_surrogate c
      then utf8_of_code_point 0xFFFD @ utf8 (d # cs)
      else utf8_of_code_point (unat c) @ utf8 (d # cs))"

text \<open>
  \<^verbatim>\<open>Buffer.alloc(n, fill)\<close> as Node documents it: the buffer is zero-filled when \<open>fill\<close> is
  \<^verbatim>\<open>undefined\<close> or the empty string, and otherwise \<^verbatim>\<open>buf.fill(fill)\<close> writes the bytes of the
  string again and again until the buffer is full, cutting the last copy
  (\<^verbatim>\<open>Buffer.alloc(5, 'a')\<close> is \<^verbatim>\<open><Buffer 61 61 61 61 61>\<close>).
\<close>

definition Buffer_alloc :: "nat \<Rightarrow> jsstring option \<Rightarrow> 8 word list" where
  "Buffer_alloc n fill =
     (case fill of
        None \<Rightarrow> replicate n 0
      | Some str \<Rightarrow>
          if str = [] then replicate n 0
          else map (\<lambda>i. utf8 str ! (i mod length (utf8 str))) [0..<n])"

text \<open>\<^verbatim>\<open>s.replace(pattern, replacement)\<close> with a string pattern: the first occurrence only.\<close>

fun replace_first :: "'a list \<Rightarrow> 'a list \<Rightarrow> 'a list \<Rightarrow> 'a list" where
  "replace_first p r [] = (if p = [] then r else [])"
| "replace_first p r (c # cs) =
     (if starts_with p (c # cs) then r @ drop (length p) (c # cs)
      else c # replace_first p r cs)"

text \<open>\<^verbatim>\<open>crypto.timingSafeEqual\<close> on two buffers of the same length: whether they hold the
  same bytes. Its running time is not part of the model.\<close>

definition timingSafeEqual :: "8 word list \<Rightarrow> 8 word list \<Rightarrow> bool" where
  "timingSafeEqual a b = (a = b)"

datatype auth_result = Next | Refused envelope

definition teapot :: envelope where
  "teapot = \<lparr>http_status = 418, data = [], statusCode = Some 418,
     errors = [lit ''not today my little bish xqcL'']\<rparr>"

text \<open>\<^verbatim>\<open>authenticate\<close>; \<open>authorization\<close> is the request's header, \<open>None\<close> when it is absent.\<close>

definition authenticate :: "config \<Rightarrow> jsstring option \<Rightarrow> auth_result" where
  "authenticate cfg authorization =
     (let posessed = Buffer_alloc 5 (Some (auth cfg));
          provided = Buffer_alloc 5 (map_option (replace_first (lit ''Bearer '') []) authorization)
      in if \<not> timingSafeEqual posessed provided then Refused teapot else Next)"

section \<open>Properties\<close>

subsection \<open>Code Shaper\<close>

lemma starts_with_iff: "starts_with p s \<longleftrightarrow> (\<exists>v. s = p @ v)"
  by (induction p s rule: starts_with.induct) auto

lemma has_match_iff: "has_match p s \<longleftrightarrow> (\<exists>u v. s = u @ p @ v)"
proof (induction s)
  case Nil
  then show ?case by (simp add: starts_with_iff)
next
  case (Cons c cs)
  show ?case
  proof
    assume "has_match p (c # cs)"
    then consider "starts_with p (c # cs)" | "has_match p cs" by auto
    then show "\<exists>u v. c # cs = u @ p @ v"
    proof cases
      case 1
      then obtain v where "c # cs = p @ v" by (auto simp: starts_with_iff)
      then have "c # cs = [] @ p @ v" by simp
      then show ?thesis by blast
    next
      case 2
      with Cons obtain u v where "cs = u @ p @ v" by auto
      then have "c # cs = (c # u) @ p @ v" by simp
      then show ?thesis by blast
    qed
  next
    assume "\<exists>u v. c # cs = u @ p @ v"
    then obtain u v where uv: "c # cs = u @ p @ v" by blast
    show "has_match p (c # cs)"
    proof (cases u)
      case Nil
      with uv have "starts_with p (c # cs)" by (auto simp: starts_with_iff)
      then show ?thesis by simp
    next
      case (Cons a u')
      with uv have "cs = u' @ p @ v" by simp
      with Cons.IH have "has_match p cs" by blast
      then show ?thesis by simp
    qed
  qed
qed

lemma escape_quotes_concat:
  "escape_quotes s =
     concat (map (\<lambda>c. if c = backslash \<or> c = dquote \<or> c = squote then [backslash, c] else [c]) s)"
  by (induction s) auto

text \<open>
  C9. The script is the asynchronous wrapper
  \<^verbatim>\<open>toString((async function evaluate() { <code> })());\<close> exactly when the code contains
  the substring \<^verbatim>\<open>return\<close> or the substring \<^verbatim>\<open>await\<close>; otherwise it is
  \<^verbatim>\<open>toString(eval('<code>'))\<close>, where in the embedded code every backslash, double quote
  and single quote is preceded by an added backslash and every other code unit is copied.
\<close>

theorem C9_shape_code:
  "((\<exists>u v. code = u @ lit ''return'' @ v) \<or> (\<exists>u v. code = u @ lit ''await'' @ v) \<longrightarrow>
      shape_code prelude code =
        (prelude @ lit ''toString((async function evaluate() { '' @ code @ lit '' })());'', True))
   \<and> (\<not> ((\<exists>u v. code = u @ lit ''return'' @ v) \<or> (\<exists>u v. code = u @ lit ''await'' @ v)) \<longrightarrow>
      shape_code prelude code =
        (prelude @ lit ''toString(eval('' @ [squote]
           @ concat (map (\<lambda>c. if c = backslash \<or> c = dquote \<or> c = squote
                                then [backslash, c] else [c]) code)
           @ [squote] @ lit ''))'', False))"
  unfolding shape_code_def test_return_await_def has_match_iff escape_quotes_concat
  by simp

theorem C9_shape_code_witness:
  "shape_code (lit ''P;'') (lit ''return 1'')
     = (lit ''P;toString((async function evaluate() { return 1 })());'', True)
   \<and> shape_code (lit ''P;'') [0x61, squote, 0x62]
     = (lit ''P;toString(eval('' @ [squote] @ [0x61, backslash, squote, 0x62] @ [squote]
          @ lit ''))'', False)"
proof -
  have "lit ''return 1'' = [] @ lit ''return'' @ lit '' 1''"
    by (simp add: lit_def)
  then have h1: "(\<exists>u v. lit ''return 1'' = u @ lit ''return'' @ v)
      \<or> (\<exists>u v. lit ''return 1'' = u @ lit ''await'' @ v)"
    by blast
  have h2: "\<not> ((\<exists>u v. [0x61, squote, 0x62] = u @ lit ''return'' @ v)
      \<or> (\<exists>u v. [0x61, squote, 0x62] = u @ lit ''await'' @ v))"
    unfolding has_match_iff [symmetric] by (simp add: lit_def squote_def)
  from h1 C9_shape_code [of "lit ''return 1''" "lit ''P;''"]
  have a: "shape_code (lit ''P;'') (lit ''return 1'')
      = (lit ''P;'' @ lit ''toString((async function evaluate() { '' @ lit ''return 1''
           @ lit '' })());'', True)"
    by blast
  from h2 C9_shape_code [of "[0x61, squote, 0x62]" "lit ''P;''"]
  have b: "shape_code (lit ''P;'') [0x61, squote, 0x62] =
        (lit ''P;'' @ lit ''toString(eval('' @ [squote]
           @ concat (map (\<lambda>c. if c = backslash \<or> c = dquote \<or> c = squote
                                then [backslash, c] else [c]) [0x61, squote, 0x62])
           @ [squote] @ lit ''))'', False)"
    by blast
  show ?thesis
    unfolding a b by (simp add: lit_def squote_def backslash_def dquote_def)
qed

subsection \<open>Isolate Runner: the result string\<close>

lemma eval_part_settled:
  "eval_part None None (Some r) None =
     NewIsolate # Dispose #
     (case catch_chain r of
        Inl t \<Rightarrow> [Settle (Rejected (ReasonError t))]
      | Inr v \<Rightarrow> [ResetCounter, Settle (slice_result 3000 v)])"
  by (simp add: eval_part_def finish_eval_def)

lemma eval_index_settled:
  "eval_index None (Some r) None =
     NewIsolate # Dispose #
     (case catch_chain r of
        Inl t \<Rightarrow> [Settle (Rejected (ReasonError t))]
      | Inr v \<Rightarrow> [ResetCounter, Settle (slice_result 10000 v)])"
  by (simp add: eval_index_def finish_eval_def)

lemma delivered_finish_eval:
  "delivered (finish_eval n r dispose_error) =
     (case dispose_error of
        Some d \<Rightarrow> Some (Rejected (ReasonError d))
      | None \<Rightarrow>
          (case catch_chain r of
             Inl t \<Rightarrow> Some (Rejected (ReasonError t))
           | Inr v \<Rightarrow> Some (slice_result n v)))"
  by (simp add: finish_eval_def split: option.splits sum.splits)

lemma delivered_eval_part:
  "delivered (eval_part ctor_error catastrophic chain dispose_error) =
     (case ctor_error of
        Some e \<Rightarrow> Some (Rejected (ReasonError e))
      | None \<Rightarrow>
          (case catastrophic of
             Some e \<Rightarrow> Some (Rejected (ReasonError e))
           | None \<Rightarrow>
               (case chain of
                  None \<Rightarrow> None
                | Some r \<Rightarrow> delivered (finish_eval 3000 r dispose_error))))"
  by (simp add: eval_part_def split: option.splits)

lemma delivered_eval_index:
  "delivered (eval_index ctor_error chain dispose_error) =
     (case ctor_error of
        Some e \<Rightarrow> Some (Rejected (ReasonError e))
      | None \<Rightarrow>
          (case chain of
             None \<Rightarrow> None
           | Some r \<Rightarrow> delivered (finish_eval 10000 r dispose_error)))"
  by (simp add: eval_index_def split: option.splits)

lemma slice_result_string:
  "slice_result n v = Resolved (RString t) \<Longrightarrow> \<exists>s. v = VString s \<and> t = take n s"
  by (cases v) (simp_all add: slice0_def)

text \<open>An evaluation that resolves with a string went through the whole chain: the chain
  settled, the handler of \<^verbatim>\<open>.catch\<close> did not throw, \<^verbatim>\<open>isolate.dispose()\<close> did not throw, and
  the string is the slice of what the chain yielded.\<close>

lemma finish_eval_resolved_string:
  "delivered (finish_eval n r dispose_error) = Some (Resolved (RString t)) \<Longrightarrow>
     \<exists>s. catch_chain r = Inr (VString s) \<and> t = take n s"
  by (auto simp: delivered_finish_eval split: option.splits sum.splits
      dest: slice_result_string)

lemma eval_part_resolved_string:
  "delivered (eval_part ctor_error catastrophic chain dispose_error) = Some (Resolved (RString t))
     \<Longrightarrow> \<exists>r s. chain = Some r \<and> catch_chain r = Inr (VString s) \<and> t = take 3000 s"
  by (auto simp: delivered_eval_part split: option.splits dest: finish_eval_resolved_string)

lemma eval_index_resolved_string:
  "delivered (eval_index ctor_error chain dispose_error) = Some (Resolved (RString t))
     \<Longrightarrow> \<exists>r s. chain = Some r \<and> catch_chain r = Inr (VString s) \<and> t = take 10000 s"
  by (auto simp: delivered_eval_index split: option.splits dest: finish_eval_resolved_string)

text \<open>
  C2, as amended. Whenever an evaluation resolves with a string \<open>t\<close> (with whatever the
  isolate library did), the success envelope carries exactly the one element \<open>t\<close>, and
  \<open>t\<close> is a slice of the string \<open>s\<close> that the promise chain yielded (the guest's
  stringified value, or the sentinel built from an error): in \<^verbatim>\<open>part_000\<close> its first 3000
  code units, so \<open>t\<close> has at most 3000 code units; in \<^verbatim>\<open>src/index.ts\<close> its first 10000 code
  units. Conversely, when the chain yields the string \<open>s\<close> and neither a catastrophic
  error nor a throw of \<^verbatim>\<open>isolate.dispose()\<close> intervenes, the envelope carries the first 3000
  code units of \<open>s\<close> in \<^verbatim>\<open>part_000\<close>, exactly 3000 of them when \<open>s\<close> is longer than that,
  and the first 10000 code units of \<open>s\<close> in \<^verbatim>\<open>src/index.ts\<close>.
\<close>

theorem C2_result_truncated:
  "(delivered (eval_part ctor_error catastrophic chain dispose_error)
        = Some (Resolved (RString t)) \<longrightarrow>
      data (respond_part (Resolved (RString t))) = [t]
    \<and> (\<exists>r s. chain = Some r \<and> catch_chain r = Inr (VString s) \<and> t = take 3000 s)
    \<and> length t \<le> 3000)
   \<and> (delivered (eval_index ctor_error chain dispose_error)
        = Some (Resolved (RString t')) \<longrightarrow>
      data (respond_index (Resolved (RString t'))) = [t']
    \<and> (\<exists>r s. chain = Some r \<and> catch_chain r = Inr (VString s) \<and> t' = take 10000 s))
   \<and> (catch_chain r0 = Inr (VString s0) \<longrightarrow>
      map_option (data \<circ> respond_part) (delivered (eval_part None None (Some r0) None))
        = Some [take 3000 s0]
    \<and> (3000 < length s0 \<longrightarrow> length (take 3000 s0) = 3000)
    \<and> map_option (data \<circ> respond_index) (delivered (eval_index None (Some r0) None))
        = Some [take 10000 s0])"
proof -
  have a: "data (respond_part (Resolved (RString t))) = [t]
      \<and> (\<exists>r s. chain = Some r \<and> catch_chain r = Inr (VString s) \<and> t = take 3000 s)
      \<and> length t \<le> 3000"
    if "delivered (eval_part ctor_error catastrophic chain dispose_error)
        = Some (Resolved (RString t))"
  proof -
    from eval_part_resolved_string [OF that]
    obtain r s where rs: "chain = Some r" "catch_chain r = Inr (VString s)" "t = take 3000 s"
      by blast
    then have "length t \<le> 3000" by simp
    with rs show ?thesis by auto
  qed
  have b: "data (respond_index (Resolved (RString t'))) = [t']
      \<and> (\<exists>r s. chain = Some r \<and> catch_chain r = Inr (VString s) \<and> t' = take 10000 s)"
    if "delivered (eval_index ctor_error chain dispose_error) = Some (Resolved (RString t'))"
    using eval_index_resolved_string [OF that] by auto
  have c: "map_option (data \<circ> respond_part) (delivered (eval_part None None (Some r0) None))
        = Some [take 3000 s0]
      \<and> (3000 < length s0 \<longrightarrow> length (take 3000 s0) = 3000)
      \<and> map_option (data \<circ> respond_index) (delivered (eval_index None (Some r0) None))
        = Some [take 10000 s0]"
    if "catch_chain r0 = Inr (VString s0)"
    using that by (simp add: eval_part_settled eval_index_settled slice0_def)
  from a b c show ?thesis by blast
qed

theorem C2_result_truncated_witness:
  "delivered (eval_part None None (Some (ChainValue (VString (replicate 3001 0x61)))) None)
     = Some (Resolved (RString (replicate 3000 0x61)))
   \<and> length (replicate 3000 (0x61 :: 16 word)) \<le> 3000
   \<and> delivered (eval_index None (Some (ChainValue (VString (replicate 3001 0x61)))) None)
     = Some (Resolved (RString (replicate 3001 0x61)))
   \<and> data (respond_index (Resolved (RString (replicate 3001 0x61)))) = [replicate 3001 0x61]
   \<and> catch_chain (ChainValue (VString (replicate 3001 0x61))) = Inr (VString (replicate 3001 0x61))
   \<and> map_option (data \<circ> respond_part)
        (delivered (eval_part None None (Some (ChainValue (VString (replicate 3001 0x61)))) None))
       = Some [replicate 3000 0x61]"
proof -
  let ?r = "ChainValue (VString (replicate 3001 (0x61 :: 16 word)))"
  have h1: "delivered (eval_part None None (Some ?r) None)
      = Some (Resolved (RString (replicate 3000 0x61)))"
    by (simp add: eval_part_settled slice0_def)
  have h2: "delivered (eval_index None (Some ?r) None)
      = Some (Resolved (RString (replicate 3001 0x61)))"
    by (simp add: eval_index_settled slice0_def)
  have h3: "catch_chain ?r = Inr (VString (replicate 3001 0x61))"
    by simp
  note th = C2_result_truncated [where ctor_error = None and catastrophic = None
      and chain = "Some ?r" and dispose_error = None and t = "replicate 3000 0x61"
      and t' = "replicate 3001 0x61" and ?r0.0 = ?r and ?s0.0 = "replicate 3001 0x61"]
  from th h1 have a: "length (replicate 3000 (0x61 :: 16 word)) \<le> 3000"
    by blast
  from th h2 have b: "data (respond_index (Resolved (RString (replicate 3001 0x61))))
      = [replicate 3001 0x61]"
    by blast
  from th h3 have "map_option (data \<circ> respond_part) (delivered (eval_part None None (Some ?r) None))
      = Some [take 3000 (replicate 3001 0x61)]"
    by blast
  then have c: "map_option (data \<circ> respond_part) (delivered (eval_part None None (Some ?r) None))
      = Some [replicate 3000 0x61]"
    by simp
  from h1 a h2 b h3 c show ?thesis by blast
qed

text \<open>
  C2 as stated fails on \<^verbatim>\<open>src/index.ts\<close>: a result of 3001 code units reaches the
  envelope with all its 3001 code units.
\<close>

theorem C2_counterexample:
  "map_option (map length \<circ> data \<circ> respond_index)
     (delivered (eval_index None (Some (ChainValue (VString (replicate 3001 0x61)))) None))
   = Some [3001]"
  by (simp add: eval_index_settled slice0_def)

subsection \<open>Admission Queue\<close>

lemma settle_keeps: "promises s p = Some x \<Longrightarrow> promises (settle q oc s) p = Some x"
  by (auto simp: settle_def split: option.splits)

lemma settle_fields [simp]:
  "queue (settle q oc s) = queue s" "awaited (settle q oc s) = awaited s"
  "processing (settle q oc s) = processing s" "started (settle q oc s) = started s"
  by (auto simp: settle_def split: option.splits)

lemma process_loop_promises [simp]: "promises (process_loop s) = promises s"
  by (auto simp: process_loop_def split: list.splits)

lemma process_resume_keeps:
  "promises s p = Some x \<Longrightarrow> promises (process_resume oc s) p = Some x"
  by (auto simp: process_resume_def settle_keeps split: option.splits)

lemma drain_keeps: "promises s p = Some x \<Longrightarrow> promises (drain ocs s) p = Some x"
  by (induction ocs arbitrary: s) (auto simp: process_resume_keeps)

lemma process_resume_shift:
  "awaited s = Some a \<Longrightarrow> queue s = w # ws \<Longrightarrow>
     awaited (process_resume oc s) = Some w \<and> queue (process_resume oc s) = ws
     \<and> started (process_resume oc s) = started s @ [w]"
  by (simp add: process_resume_def process_loop_def)

text \<open>The waiter at the end of the queue is reached after one outcome for the evaluation
  under way and one for each waiter in front of it.\<close>

lemma drain_reaches:
  "awaited s = Some a \<Longrightarrow> queue s = front @ [w] \<Longrightarrow> length ocs = length front + 1 \<Longrightarrow>
     awaited (drain ocs s) = Some w \<and> queue (drain ocs s) = [] \<and> last (started (drain ocs s)) = w"
proof (induction ocs arbitrary: s a front)
  case Nil
  then show ?case by simp
next
  case (Cons oc ocs)
  show ?case
  proof (cases front)
    case Nil
    with Cons.prems have "ocs = []" and q: "queue s = [w]" by auto
    with process_resume_shift [OF Cons.prems(1) q, of oc] show ?thesis by simp
  next
    case (Cons f fs)
    with Cons.prems have q: "queue s = f # (fs @ [w])" by simp
    note sh = process_resume_shift [OF Cons.prems(1) q, of oc]
    from Cons Cons.prems have len: "length ocs = length fs + 1" by simp
    from Cons.IH [of "process_resume oc s" f fs] sh len show ?thesis by simp
  qed
qed

lemma add_when_processing:
  "processing s \<Longrightarrow>
     add code msg s =
       (next_promise s,
        (if length (queue s) > 20
         then settle (next_promise s) (Rejected queue_full)
                (s\<lparr>next_promise := next_promise s + 1,
                   promises := (promises s)(next_promise s := None)\<rparr>)
         else s\<lparr>next_promise := next_promise s + 1,
                 promises := (promises s)(next_promise s := None)\<rparr>)
        \<lparr>queue := queue s @ [\<lparr>w_code = code, w_msg = msg, w_promise = next_promise s\<rparr>]\<rparr>)"
  by (simp add: add_def Let_def process_def)

lemma add_promise:
  "promises (snd (add code msg s)) (fst (add code msg s)) =
     (if length (queue s) > 20 then Some (Rejected queue_full) else None)"
  by (simp add: add_def Let_def process_def process_loop_def settle_def split: list.splits)

text \<open>
  C3, as amended. When \<^verbatim>\<open>add\<close> returns, its promise is rejected with \<^verbatim>\<open>"Queue is full"\<close> if
  the queue held more than 20 waiters at the call, that is 21 or more, and it is pending
  otherwise. A call made while exactly 20 waiters are queued is not rejected.
\<close>

theorem C3_add_rejects_above_20:
  "(20 < length (queue s) \<longrightarrow>
      promises (snd (add code msg s)) (fst (add code msg s)) = Some (Rejected queue_full))
   \<and> (length (queue s) \<le> 20 \<longrightarrow>
      promises (snd (add code msg s)) (fst (add code msg s)) = None)"
  by (simp add: add_promise)

text \<open>The server after 22 calls of \<^verbatim>\<open>add\<close> with no evaluation finished: one evaluation under
  way and 21 waiters queued. The next call is rejected.\<close>

theorem C3_add_rejects_above_20_witness:
  "20 < length (queue (fold (\<lambda>i s. snd (add (lit ''1'') None s)) [0..<22]
           (new_server \<lparr>port = 8080, auth = lit ''secret'', maxFetchConcurrency = None\<rparr>)))
   \<and> promises
        (snd (add (lit ''2'') None (fold (\<lambda>i s. snd (add (lit ''1'') None s)) [0..<22]
           (new_server \<lparr>port = 8080, auth = lit ''secret'', maxFetchConcurrency = None\<rparr>))))
        (fst (add (lit ''2'') None (fold (\<lambda>i s. snd (add (lit ''1'') None s)) [0..<22]
           (new_server \<lparr>port = 8080, auth = lit ''secret'', maxFetchConcurrency = None\<rparr>))))
       = Some (Rejected queue_full)
   \<and> length (queue (new_server \<lparr>port = 8080, auth = lit ''secret'', maxFetchConcurrency = None\<rparr>))
       \<le> 20
   \<and> promises
        (snd (add (lit ''2'') None
           (new_server \<lparr>port = 8080, auth = lit ''secret'', maxFetchConcurrency = None\<rparr>)))
        (fst (add (lit ''2'') None
           (new_server \<lparr>port = 8080, auth = lit ''secret'', maxFetchConcurrency = None\<rparr>)))
       = None"
proof -
  let ?fresh = "new_server \<lparr>port = 8080, auth = lit ''secret'', maxFetchConcurrency = None\<rparr>"
  let ?s = "fold (\<lambda>i s. snd (add (lit ''1'') None s)) [0..<22] ?fresh"
  have h: "20 < length (queue ?s)" by code_simp
  have h0: "length (queue ?fresh) \<le> 20" by (simp add: new_server_def)
  from C3_add_rejects_above_20 [of ?s "lit ''2''" None] h
  have a: "promises (snd (add (lit ''2'') None ?s)) (fst (add (lit ''2'') None ?s))
      = Some (Rejected queue_full)"
    by blast
  from C3_add_rejects_above_20 [of ?fresh "lit ''2''" None] h0
  have b: "promises (snd (add (lit ''2'') None ?fresh)) (fst (add (lit ''2'') None ?fresh)) = None"
    by blast
  from h a h0 b show ?thesis by blast
qed

text \<open>
  The second half of C3 fails: after 21 calls of \<^verbatim>\<open>add\<close> with no evaluation finished, one
  evaluation is under way and 20 waiters are queued; the promise of the next call is
  pending, not rejected.
\<close>

theorem C3_counterexample:
  "length (queue (fold (\<lambda>i s. snd (add (lit ''1'') None s)) [0..<21]
           (new_server \<lparr>port = 8080, auth = lit ''secret'', maxFetchConcurrency = None\<rparr>))) = 20
   \<and> promises
        (snd (add (lit ''2'') None (fold (\<lambda>i s. snd (add (lit ''1'') None s)) [0..<21]
           (new_server \<lparr>port = 8080, auth = lit ''secret'', maxFetchConcurrency = None\<rparr>))))
        (fst (add (lit ''2'') None (fold (\<lambda>i s. snd (add (lit ''1'') None s)) [0..<21]
           (new_server \<lparr>port = 8080, auth = lit ''secret'', maxFetchConcurrency = None\<rparr>))))
       = None"
  by code_simp

text \<open>
  C4. When the queue-full rejection fires (in a consistent state of the server), the
  promise of the call is rejected and the waiter is appended to the queue all the same.
  After the evaluation under way and those of the waiters in front of it have ended,
  however they end, the loop is running the evaluation of this waiter's code; and when
  that evaluation ends, handing its outcome to the waiter leaves the promise as it was
  rejected.
\<close>

theorem C4_rejected_waiter_still_queued:
  assumes "consistent s" and "20 < length (queue s)"
  shows "promises (snd (add code msg s)) (fst (add code msg s)) = Some (Rejected queue_full)
    \<and> queue (snd (add code msg s))
        = queue s @ [\<lparr>w_code = code, w_msg = msg, w_promise = fst (add code msg s)\<rparr>]
    \<and> (\<forall>ocs. length ocs = length (queue s) + 1 \<longrightarrow>
          awaited (drain ocs (snd (add code msg s)))
            = Some \<lparr>w_code = code, w_msg = msg, w_promise = fst (add code msg s)\<rparr>
        \<and> last (started (drain ocs (snd (add code msg s))))
            = \<lparr>w_code = code, w_msg = msg, w_promise = fst (add code msg s)\<rparr>
        \<and> (\<forall>oc. promises (process_resume oc (drain ocs (snd (add code msg s))))
                  (fst (add code msg s))
              = Some (Rejected queue_full)))"
proof -
  let ?p = "fst (add code msg s)"
  let ?s' = "snd (add code msg s)"
  let ?w = "\<lparr>w_code = code, w_msg = msg, w_promise = ?p\<rparr>"
  from assms have proc: "processing s" by (auto simp: consistent_def)
  with assms obtain a where aw: "awaited s = Some a" by (auto simp: consistent_def)
  have rej: "promises ?s' ?p = Some (Rejected queue_full)"
    using assms(2) by (simp add: add_promise)
  have q: "queue ?s' = queue s @ [?w]"
    using proc by (simp add: add_when_processing)
  have aw': "awaited ?s' = Some a"
    using proc aw by (simp add: add_when_processing)
  have later: "awaited (drain ocs ?s') = Some ?w \<and> last (started (drain ocs ?s')) = ?w
      \<and> (\<forall>oc. promises (process_resume oc (drain ocs ?s')) ?p = Some (Rejected queue_full))"
    if len: "length ocs = length (queue s) + 1" for ocs
  proof -
    from drain_reaches [OF aw' q len]
    have "awaited (drain ocs ?s') = Some ?w" and "last (started (drain ocs ?s')) = ?w"
      by simp_all
    moreover have "promises (process_resume oc (drain ocs ?s')) ?p = Some (Rejected queue_full)"
      for oc
      by (rule process_resume_keeps [OF drain_keeps [OF rej]])
    ultimately show ?thesis by blast
  qed
  from rej q later show ?thesis by blast
qed

theorem C4_rejected_waiter_still_queued_witness:
  "consistent (fold (\<lambda>i s. snd (add (lit ''1'') None s)) [0..<22]
           (new_server \<lparr>port = 8080, auth = lit ''secret'', maxFetchConcurrency = None\<rparr>))
   \<and> 20 < length (queue (fold (\<lambda>i s. snd (add (lit ''1'') None s)) [0..<22]
           (new_server \<lparr>port = 8080, auth = lit ''secret'', maxFetchConcurrency = None\<rparr>)))
   \<and> length (queue (snd (add (lit ''2'') None
        (fold (\<lambda>i s. snd (add (lit ''1'') None s)) [0..<22]
           (new_server \<lparr>port = 8080, auth = lit ''secret'', maxFetchConcurrency = None\<rparr>)))))
       = 22
   \<and> awaited (drain (replicate 22 (Resolved RUndefined)) (snd (add (lit ''2'') None
        (fold (\<lambda>i s. snd (add (lit ''1'') None s)) [0..<22]
           (new_server \<lparr>port = 8080, auth = lit ''secret'', maxFetchConcurrency = None\<rparr>)))))
       = Some \<lparr>w_code = lit ''2'', w_msg = None, w_promise = 22\<rparr>"
proof -
  let ?s = "fold (\<lambda>i s. snd (add (lit ''1'') None s)) [0..<22]
           (new_server \<lparr>port = 8080, auth = lit ''secret'', maxFetchConcurrency = None\<rparr>)"
  have h1: "consistent ?s" by code_simp
  have h2: "20 < length (queue ?s)" by code_simp
  have h3: "length (queue ?s) = 21" by code_simp
  have h4: "fst (add (lit ''2'') None ?s) = 22" by code_simp
  note th = C4_rejected_waiter_still_queued [OF h1 h2, of "lit ''2''" None]
  from th have "queue (snd (add (lit ''2'') None ?s))
        = queue ?s @ [\<lparr>w_code = lit ''2'', w_msg = None, w_promise = fst (add (lit ''2'') None ?s)\<rparr>]"
    by blast
  then have a: "length (queue (snd (add (lit ''2'') None ?s))) = 22"
    by (simp add: h3)
  have "length (replicate 22 (Resolved RUndefined)) = length (queue ?s) + 1"
    by (simp add: h3)
  with th have "awaited (drain (replicate 22 (Resolved RUndefined)) (snd (add (lit ''2'') None ?s)))
      = Some \<lparr>w_code = lit ''2'', w_msg = None, w_promise = fst (add (lit ''2'') None ?s)\<rparr>"
    by blast
  then have b: "awaited (drain (replicate 22 (Resolved RUndefined)) (snd (add (lit ''2'') None ?s)))
      = Some \<lparr>w_code = lit ''2'', w_msg = None, w_promise = 22\<rparr>"
    by (simp only: h4)
  from h1 h2 a b show ?thesis by blast
qed

lemma consistent_new_server: "consistent (new_server cfg)"
  by (simp add: consistent_def new_server_def)

lemma consistent_add: "consistent s \<Longrightarrow> consistent (snd (add code msg s))"
  by (auto simp: consistent_def add_def Let_def process_def process_loop_def settle_def
      split: list.splits option.splits)

lemma consistent_process_resume: "consistent s \<Longrightarrow> consistent (process_resume oc s)"
  by (auto simp: consistent_def process_resume_def process_loop_def settle_def
      split: list.splits option.splits)

subsection \<open>Authentication\<close>

lemma utf8_of_code_point_nonempty: "utf8_of_code_point n \<noteq> []"
  by (simp add: utf8_of_code_point_def)

lemma utf8_empty_iff: "utf8 s = [] \<longleftrightarrow> s = []"
  by (induction s rule: utf8.induct) (auto simp: utf8_of_code_point_nonempty)

lemma cyclic_fill_take:
  assumes "n \<le> length b"
  shows "map (\<lambda>i. b ! (i mod length b)) [0..<n] = take n b"
proof (rule nth_equalityI)
  show "length (map (\<lambda>i. b ! (i mod length b)) [0..<n]) = length (take n b)"
    using assms by simp
next
  fix i assume "i < length (map (\<lambda>i. b ! (i mod length b)) [0..<n])"
  then have "i < n" by simp
  with assms show "map (\<lambda>i. b ! (i mod length b)) [0..<n] ! i = take n b ! i"
    by simp
qed

text \<open>A string of at least \<open>n\<close> bytes fills the buffer with its first \<open>n\<close> bytes.\<close>

lemma Buffer_alloc_long:
  "n \<le> length (utf8 str) \<Longrightarrow> 0 < n \<Longrightarrow> Buffer_alloc n (Some str) = take n (utf8 str)"
  by (auto simp: Buffer_alloc_def cyclic_fill_take)

lemma take_eq_cases:
  assumes "take n a = take n b"
  shows "(n \<le> length a \<and> n \<le> length b) \<or> a = b"
proof (cases "n \<le> length a")
  case True
  then have "length (take n a) = n" by simp
  with assms have "length (take n b) = n" by simp
  then have "n \<le> length b" by simp
  with True show ?thesis by simp
next
  case False
  then have a: "take n a = a" by simp
  with assms have "length (take n b) < n" using False by simp
  then have "take n b = b" by simp
  with a assms show ?thesis by simp
qed

lemma Buffer_alloc_same_prefix:
  assumes "take n (utf8 a) = take n (utf8 b)" and "0 < n"
  shows "Buffer_alloc n (Some a) = Buffer_alloc n (Some b)"
proof -
  from take_eq_cases [OF assms(1)]
  consider "n \<le> length (utf8 a) \<and> n \<le> length (utf8 b)" | "utf8 a = utf8 b" by blast
  then show ?thesis
  proof cases
    case 1
    with assms show ?thesis by (simp add: Buffer_alloc_long)
  next
    case 2
    then have "a = [] \<longleftrightarrow> b = []" by (metis utf8_empty_iff)
    with 2 show ?thesis by (auto simp: Buffer_alloc_def)
  qed
qed

lemma upt_5: "[0..<5] = [0, 1, 2, 3, 4]"
  by code_simp

lemma utf8_ab: "utf8 (lit ''ab'') = [0x61, 0x62]"
  by (simp add: lit_def utf8_of_code_point_def is_high_surrogate_def is_low_surrogate_def)

lemma utf8_abab: "utf8 (lit ''abab'') = [0x61, 0x62, 0x61, 0x62]"
  by (simp add: lit_def utf8_of_code_point_def is_high_surrogate_def is_low_surrogate_def)

lemma Buffer_alloc_ab: "Buffer_alloc 5 (Some (lit ''ab'')) = [0x61, 0x62, 0x61, 0x62, 0x61]"
proof -
  have l: "length (utf8 (lit ''ab'')) = 2" by (simp add: utf8_ab)
  have n: "lit ''ab'' \<noteq> []" by (simp add: lit_def)
  have "Buffer_alloc 5 (Some (lit ''ab''))
      = map (\<lambda>i. utf8 (lit ''ab'') ! (i mod 2)) [0, 1, 2, 3, 4]"
    by (simp only: Buffer_alloc_def option.case n if_False l upt_5)
  then show ?thesis by (simp add: utf8_ab)
qed

lemma Buffer_alloc_abab: "Buffer_alloc 5 (Some (lit ''abab'')) = [0x61, 0x62, 0x61, 0x62, 0x61]"
proof -
  have l: "length (utf8 (lit ''abab'')) = 4" by (simp add: utf8_abab)
  have n: "lit ''abab'' \<noteq> []" by (simp add: lit_def)
  have "Buffer_alloc 5 (Some (lit ''abab''))
      = map (\<lambda>i. utf8 (lit ''abab'') ! (i mod 4)) [0, 1, 2, 3, 4]"
    by (simp only: Buffer_alloc_def option.case n if_False l upt_5)
  then show ?thesis by (simp add: utf8_abab)
qed

text \<open>
  C5, as amended. Both sides are placed into 5-byte buffers by \<^verbatim>\<open>Buffer.alloc(5, s)\<close>: the UTF-8
  bytes of the string repeated until the buffer is full and cut at 5 bytes (all zero for
  an empty string or an absent header), not padded with zeros. The request passes exactly
  when the two buffers hold the same bytes, and is answered with HTTP 418 otherwise.
  Hence a token whose first 5 bytes equal the secret's first 5 bytes passes; and when
  secret and token both have at least 5 bytes, a token whose first 5 bytes differ from
  the secret's is answered with HTTP 418. The token is the header with the first
  occurrence of \<^verbatim>\<open>"Bearer "\<close> removed.
\<close>

theorem C5_authenticate:
  "(take 5 (utf8 (replace_first (lit ''Bearer '') [] h)) = take 5 (utf8 (auth cfg))
      \<longrightarrow> authenticate cfg (Some h) = Next)
   \<and> (5 \<le> length (utf8 (auth cfg)) \<and> 5 \<le> length (utf8 (replace_first (lit ''Bearer '') [] h))
       \<and> take 5 (utf8 (replace_first (lit ''Bearer '') [] h)) \<noteq> take 5 (utf8 (auth cfg))
      \<longrightarrow> authenticate cfg (Some h) = Refused teapot)
   \<and> authenticate cfg hdr =
       (if Buffer_alloc 5 (Some (auth cfg))
            = Buffer_alloc 5 (map_option (replace_first (lit ''Bearer '') []) hdr)
        then Next else Refused teapot)
   \<and> http_status teapot = 418"
proof -
  let ?tok = "replace_first (lit ''Bearer '') [] h"
  have a: "authenticate cfg (Some h) = Next" if "take 5 (utf8 ?tok) = take 5 (utf8 (auth cfg))"
    using Buffer_alloc_same_prefix [OF that]
    by (simp add: authenticate_def timingSafeEqual_def Let_def)
  have b: "authenticate cfg (Some h) = Refused teapot"
    if "5 \<le> length (utf8 (auth cfg))" "5 \<le> length (utf8 ?tok)"
       "take 5 (utf8 ?tok) \<noteq> take 5 (utf8 (auth cfg))"
    using that by (auto simp: authenticate_def timingSafeEqual_def Let_def Buffer_alloc_long)
  have c: "authenticate cfg hdr =
       (if Buffer_alloc 5 (Some (auth cfg))
            = Buffer_alloc 5 (map_option (replace_first (lit ''Bearer '') []) hdr)
        then Next else Refused teapot)"
    by (simp add: authenticate_def timingSafeEqual_def Let_def)
  have d: "http_status teapot = 418" by (simp add: teapot_def)
  from a b c d show ?thesis by blast
qed

theorem C5_authenticate_witness:
  "authenticate \<lparr>port = 8080, auth = lit ''secret'', maxFetchConcurrency = None\<rparr>
     (Some (lit ''Bearer secreXYZ'')) = Next
   \<and> authenticate \<lparr>port = 8080, auth = lit ''secret'', maxFetchConcurrency = None\<rparr>
     (Some (lit ''Bearer nope!'')) = Refused teapot"
proof -
  let ?cfg = "\<lparr>port = 8080, auth = lit ''secret'', maxFetchConcurrency = None\<rparr>"
  have s: "utf8 (auth ?cfg) = [0x73, 0x65, 0x63, 0x72, 0x65, 0x74]"
    by (simp add: lit_def utf8_of_code_point_def is_high_surrogate_def is_low_surrogate_def)
  have r1: "replace_first (lit ''Bearer '') [] (lit ''Bearer secreXYZ'') = lit ''secreXYZ''"
    by (simp add: lit_def)
  have r2: "replace_first (lit ''Bearer '') [] (lit ''Bearer nope!'') = lit ''nope!''"
    by (simp add: lit_def)
  have t1: "utf8 (lit ''secreXYZ'') = [0x73, 0x65, 0x63, 0x72, 0x65, 0x58, 0x59, 0x5A]"
    by (simp add: lit_def utf8_of_code_point_def is_high_surrogate_def is_low_surrogate_def)
  have t2: "utf8 (lit ''nope!'') = [0x6E, 0x6F, 0x70, 0x65, 0x21]"
    by (simp add: lit_def utf8_of_code_point_def is_high_surrogate_def is_low_surrogate_def)
  have h1: "take 5 (utf8 (replace_first (lit ''Bearer '') [] (lit ''Bearer secreXYZ'')))
      = take 5 (utf8 (auth ?cfg))"
    unfolding r1 t1 s by simp
  have h2: "5 \<le> length (utf8 (auth ?cfg))
      \<and> 5 \<le> length (utf8 (replace_first (lit ''Bearer '') [] (lit ''Bearer nope!'')))
      \<and> take 5 (utf8 (replace_first (lit ''Bearer '') [] (lit ''Bearer nope!'')))
          \<noteq> take 5 (utf8 (auth ?cfg))"
    unfolding r2 t2 s by simp
  from C5_authenticate [of "lit ''Bearer secreXYZ''" ?cfg] h1
  have a: "authenticate ?cfg (Some (lit ''Bearer secreXYZ'')) = Next" by blast
  from C5_authenticate [of "lit ''Bearer nope!''" ?cfg] h2
  have b: "authenticate ?cfg (Some (lit ''Bearer nope!'')) = Refused teapot" by blast
  from a b show ?thesis by blast
qed

text \<open>
  C5 as stated fails for a secret shorter than 5 bytes: with the secret \<^verbatim>\<open>ab\<close> the
  header \<^verbatim>\<open>Bearer abab\<close> passes, although the first 5 bytes of the token (\<^verbatim>\<open>abab\<close>) are not
  those of the secret (\<^verbatim>\<open>ab\<close>); and the secret's buffer is \<^verbatim>\<open>ababa\<close>, not \<^verbatim>\<open>ab\<close> followed by
  zeros.
\<close>

theorem C5_counterexample:
  "authenticate \<lparr>port = 8080, auth = lit ''ab'', maxFetchConcurrency = None\<rparr>
     (Some (lit ''Bearer abab'')) = Next
   \<and> take 5 (utf8 (lit ''abab'')) \<noteq> take 5 (utf8 (lit ''ab''))
   \<and> Buffer_alloc 5 (Some (lit ''ab'')) \<noteq> [0x61, 0x62, 0, 0, 0]"
proof -
  have r: "replace_first (lit ''Bearer '') [] (lit ''Bearer abab'') = lit ''abab''"
    by (simp add: lit_def)
  have "authenticate \<lparr>port = 8080, auth = lit ''ab'', maxFetchConcurrency = None\<rparr>
      (Some (lit ''Bearer abab'')) = Next"
    by (simp add: authenticate_def timingSafeEqual_def r Buffer_alloc_ab Buffer_alloc_abab)
  moreover have "take 5 (utf8 (lit ''abab'')) \<noteq> take 5 (utf8 (lit ''ab''))"
    by (simp add: utf8_ab utf8_abab)
  moreover have "Buffer_alloc 5 (Some (lit ''ab'')) \<noteq> [0x61, 0x62, 0, 0, 0]"
    by (simp add: Buffer_alloc_ab)
  ultimately show ?thesis by blast
qed

subsection \<open>Outbound HTTP Bridge: failures\<close>

lemma fetchImplement_part_refused:
  "maxConcurrency s < concurrencyCounter s + 1 \<Longrightarrow>
     fetchImplement_part stringify pd url options s = (Returned too_many, s)"
  by (simp add: fetchImplement_part_def Let_def)


lemma fetchImplement_part_admitted:
  "\<not> maxConcurrency s < concurrencyCounter s + 1 \<Longrightarrow>
     fetchImplement_part stringify pd url options s =
       (Awaiting url (fetch_init_part stringify pd options),
        s\<lparr>concurrencyCounter := concurrencyCounter s + 1, in_flight := in_flight s + 1\<rparr>)"
  by (simp add: fetchImplement_part_def Let_def)

lemma fetchImplement_index_admitted:
  "\<not> maxConcurrency s < concurrencyCounter s + 1 \<Longrightarrow>
     fetchImplement_index url options s =
       (Awaiting url (fetch_init_index url options),
        s\<lparr>concurrencyCounter := concurrencyCounter s + 1, in_flight := in_flight s + 1\<rparr>)"
  by (simp add: fetchImplement_index_def Let_def)




subsection \<open>The concurrency counter\<close>

lemma step_counter_le:
  "step stringify parse ev s = Some s' \<Longrightarrow> concurrencyCounter s \<le> int (in_flight s) \<Longrightarrow>
     concurrencyCounter s' \<le> int (in_flight s')"
  by (cases ev)
     (auto simp: fetchImplement_part_def fetchImplement_resume_part_def Let_def
        eval_effect_def eval_part_settled split: if_splits sum.splits)

lemma step_counter_eq:
  "step stringify parse ev s = Some s' \<Longrightarrow> concurrencyCounter s = int (in_flight s) \<Longrightarrow>
     (case ev of EvalSettled r \<Rightarrow> in_flight s = 0 | _ \<Rightarrow> True) \<Longrightarrow>
     concurrencyCounter s' = int (in_flight s')"
  by (cases ev)
     (auto simp: fetchImplement_part_def fetchImplement_resume_part_def Let_def
        eval_effect_def eval_part_settled split: if_splits sum.splits)

lemma run_counter_le:
  "run stringify parse evs s = Some s' \<Longrightarrow> concurrencyCounter s \<le> int (in_flight s) \<Longrightarrow>
     concurrencyCounter s' \<le> int (in_flight s')"
proof (induction evs arbitrary: s)
  case Nil
  then show ?case by simp
next
  case (Cons ev evs)
  then obtain t where t: "step stringify parse ev s = Some t" and r: "run stringify parse evs t = Some s'"
    by (auto split: option.splits)
  from step_counter_le [OF t Cons.prems(2)] Cons.IH [OF r] show ?case by blast
qed

lemma run_counter_eq:
  "run stringify parse evs s = Some s' \<Longrightarrow> quiet_ends stringify parse evs s \<Longrightarrow>
     concurrencyCounter s = int (in_flight s) \<Longrightarrow> concurrencyCounter s' = int (in_flight s')"
proof (induction evs arbitrary: s)
  case Nil
  then show ?case by simp
next
  case (Cons ev evs)
  then obtain t where t: "step stringify parse ev s = Some t" and r: "run stringify parse evs t = Some s'"
    by (auto split: option.splits)
  from Cons.prems(2) t have q: "quiet_ends stringify parse evs t"
    and e: "case ev of EvalSettled r \<Rightarrow> in_flight s = 0 | _ \<Rightarrow> True"
    by simp_all
  from step_counter_eq [OF t Cons.prems(3) e] Cons.IH [OF r q] show ?case by blast
qed

text \<open>The two variants of the bridge act on the server's state alike.\<close>

lemma fetchImplement_index_state:
  "snd (fetchImplement_index url options s) = snd (fetchImplement_part stringify pd url options s)"
  by (simp add: fetchImplement_index_def fetchImplement_part_def Let_def)

lemma fetchImplement_resume_index_state:
  "snd (fetchImplement_resume_index parse r s) = snd (fetchImplement_resume_part parse r s)"
  by (simp add: fetchImplement_resume_index_def fetchImplement_resume_part_def)

text \<open>
  What holds of the counter on every run. A call of the bridge that is refused with 429
  leaves the counter as it found it (the increment and the decrement of the \<^verbatim>\<open>finally\<close>
  both run); a call that is admitted adds one, and the end of any admitted call subtracts
  one; an evaluation whose chain yields a value sets the counter to 0 at its end. From the
  start of the server the counter never exceeds the number of calls in flight, and as
  long as no evaluation ends while one of its calls is still in flight it equals that
  number, so it is not negative.
\<close>

theorem counter_accounting:
  "(maxConcurrency s < concurrencyCounter s + 1 \<longrightarrow>
      concurrencyCounter (snd (fetchImplement_part stringify pd url options s))
        = concurrencyCounter s)
   \<and> (\<not> maxConcurrency s < concurrencyCounter s + 1 \<longrightarrow>
      concurrencyCounter (snd (fetchImplement_part stringify pd url options s))
        = concurrencyCounter s + 1)
   \<and> concurrencyCounter (snd (fetchImplement_resume_part parse r s)) = concurrencyCounter s - 1
   \<and> (catch_chain cr = Inr v \<longrightarrow>
        concurrencyCounter (eval_effect (eval_part None None (Some cr) None) s) = 0
      \<and> concurrencyCounter (eval_effect (eval_index None (Some cr) None) s) = 0)
   \<and> (run stringify parse evs (new_server cfg) = Some s' \<longrightarrow>
        concurrencyCounter s' \<le> int (in_flight s')
      \<and> (quiet_ends stringify parse evs (new_server cfg) \<longrightarrow>
           concurrencyCounter s' = int (in_flight s') \<and> 0 \<le> concurrencyCounter s'))"
proof -
  have init: "concurrencyCounter (new_server cfg) = int (in_flight (new_server cfg))"
    by (simp add: new_server_def)
  have a: "concurrencyCounter s' \<le> int (in_flight s')"
    if "run stringify parse evs (new_server cfg) = Some s'"
    using run_counter_le [OF that] init by simp
  have b: "concurrencyCounter s' = int (in_flight s') \<and> 0 \<le> concurrencyCounter s'"
    if "run stringify parse evs (new_server cfg) = Some s'"
      and "quiet_ends stringify parse evs (new_server cfg)"
    using run_counter_eq [OF that init] by simp
  have c: "concurrencyCounter (snd (fetchImplement_resume_part parse r s)) = concurrencyCounter s - 1"
    by (simp add: fetchImplement_resume_part_def)
  have d: "catch_chain cr = Inr v \<longrightarrow>
        concurrencyCounter (eval_effect (eval_part None None (Some cr) None) s) = 0
      \<and> concurrencyCounter (eval_effect (eval_index None (Some cr) None) s) = 0"
    by (simp add: eval_effect_def eval_part_settled eval_index_settled)
  have e: "maxConcurrency s < concurrencyCounter s + 1 \<longrightarrow>
      concurrencyCounter (snd (fetchImplement_part stringify pd url options s))
        = concurrencyCounter s"
    by (simp add: fetchImplement_part_refused)
  have f: "\<not> maxConcurrency s < concurrencyCounter s + 1 \<longrightarrow>
      concurrencyCounter (snd (fetchImplement_part stringify pd url options s))
        = concurrencyCounter s + 1"
    by (simp add: fetchImplement_part_admitted)
  from a b c d e f show ?thesis by blast
qed

theorem counter_accounting_example:
  "concurrencyCounter (snd (fetchImplement_part id'
        \<lparr>user = None, channel = None, id' = [], timestamp = JNum 0,
          platform = JStr (lit ''PotatEval''), isSilent = False\<rparr> (lit ''http://a/'') None
        (new_server \<lparr>port = 8080, auth = lit ''secret'', maxFetchConcurrency = Some 0\<rparr>)))
     = 0
   \<and> concurrencyCounter (snd (fetchImplement_part id'
        \<lparr>user = None, channel = None, id' = [], timestamp = JNum 0,
          platform = JStr (lit ''PotatEval''), isSilent = False\<rparr> (lit ''http://a/'') None
        (new_server \<lparr>port = 8080, auth = lit ''secret'', maxFetchConcurrency = None\<rparr>)))
     = 1
   \<and> run id' Map.empty
        [GuestFetch \<lparr>user = None, channel = None, id' = [], timestamp = JNum 0,
            platform = JStr (lit ''PotatEval''), isSilent = False\<rparr> (lit ''http://a/'') None,
         GuestFetch \<lparr>user = None, channel = None, id' = [], timestamp = JNum 0,
            platform = JStr (lit ''PotatEval''), isSilent = False\<rparr> (lit ''http://b/'') None,
         FetchSettled (Arrived [] 200)]
        (new_server \<lparr>port = 8080, auth = lit ''secret'', maxFetchConcurrency = None\<rparr>)
     = Some ((new_server \<lparr>port = 8080, auth = lit ''secret'', maxFetchConcurrency = None\<rparr>)
              \<lparr>concurrencyCounter := 1, in_flight := 1\<rparr>)
   \<and> 0 \<le> concurrencyCounter
        ((new_server \<lparr>port = 8080, auth = lit ''secret'', maxFetchConcurrency = None\<rparr>)
              \<lparr>concurrencyCounter := 1, in_flight := 1\<rparr>)"
proof -
  let ?pd = "\<lparr>user = None, channel = None, id' = [], timestamp = JNum 0,
          platform = JStr (lit ''PotatEval''), isSilent = False\<rparr>"
  let ?full = "new_server \<lparr>port = 8080, auth = lit ''secret'', maxFetchConcurrency = Some 0\<rparr>"
  let ?s = "new_server \<lparr>port = 8080, auth = lit ''secret'', maxFetchConcurrency = None\<rparr>"
  let ?evs = "[GuestFetch ?pd (lit ''http://a/'') None, GuestFetch ?pd (lit ''http://b/'') None,
         FetchSettled (Arrived [] 200)]"
  let ?s' = "?s\<lparr>concurrencyCounter := 1, in_flight := 1\<rparr>"
  have h1: "maxConcurrency ?full < concurrencyCounter ?full + 1"
    by (simp add: new_server_def)
  have h2: "\<not> maxConcurrency ?s < concurrencyCounter ?s + 1"
    by (simp add: new_server_def)
  have h3: "run id' Map.empty ?evs ?s = Some ?s'"
    by (simp add: new_server_def fetchImplement_part_def fetchImplement_resume_part_def Let_def)
  have h4: "quiet_ends id' Map.empty ?evs ?s"
    by (simp add: new_server_def fetchImplement_part_def fetchImplement_resume_part_def Let_def)
  from counter_accounting [where s = ?full and stringify = id' and pd = ?pd
      and url = "lit ''http://a/''" and options = None] h1
  have a: "concurrencyCounter (snd (fetchImplement_part id' ?pd (lit ''http://a/'') None ?full))
      = concurrencyCounter ?full"
    by blast
  from counter_accounting [where s = ?s and stringify = id' and pd = ?pd
      and url = "lit ''http://a/''" and options = None and parse = Map.empty and evs = ?evs
      and cfg = "\<lparr>port = 8080, auth = lit ''secret'', maxFetchConcurrency = None\<rparr>"
      and s' = ?s'] h2 h3 h4
  have b: "concurrencyCounter (snd (fetchImplement_part id' ?pd (lit ''http://a/'') None ?s))
      = concurrencyCounter ?s + 1"
    and c: "0 \<le> concurrencyCounter ?s'"
    by blast+
  from a have a': "concurrencyCounter (snd (fetchImplement_part id' ?pd (lit ''http://a/'') None ?full)) = 0"
    by (simp add: new_server_def)
  from b have b': "concurrencyCounter (snd (fetchImplement_part id' ?pd (lit ''http://a/'') None ?s)) = 1"
    by (simp add: new_server_def)
  from a' b' h3 c show ?thesis by blast
qed

text \<open>
  C7 on the code. The guest starts a request and does not wait for it, as in
  \<^verbatim>\<open>fetch('http://a/'); 1\<close>; the evaluation ends with \<^verbatim>\<open>"1"\<close> while the request is in flight
  and resets the counter; the \<^verbatim>\<open>finally\<close> of the request then takes the counter to -1. The
  increments and decrements are balanced and the reset happens, but the counter is
  negative.
\<close>

theorem C7_counter_negative_after_reset:
  "map_option concurrencyCounter
     (run id' Map.empty
        [GuestFetch \<lparr>user = None, channel = None, id' = [], timestamp = JNum 0,
            platform = JStr (lit ''PotatEval''), isSilent = False\<rparr> (lit ''http://a/'') None,
         EvalSettled (ChainValue (VString (lit ''1''))),
         FetchSettled (Arrived [] 200)]
        (new_server \<lparr>port = 8080, auth = lit ''secret'', maxFetchConcurrency = None\<rparr>))
   = Some (- 1)"
  by (simp add: new_server_def fetchImplement_part_def fetchImplement_resume_part_def Let_def
      eval_effect_def eval_part_settled)

subsection \<open>Isolate Runner: disposal\<close>

lemma before_delivery_finish_eval:
  "Dispose \<in> set (before_delivery (finish_eval n r dispose_error))"
  by (simp add: finish_eval_def before_delivery_def)

text \<open>
  C8, as amended. Without a catastrophic error, whenever an evaluation delivers its
  result or failure after an isolate was created, \<^verbatim>\<open>isolate.dispose()\<close> has been called
  before, in both variants and on every path: success, guest error, timeout, a
  host-side error in the chain, a rejection value that makes the handler of \<^verbatim>\<open>.catch\<close>
  throw, and a throw of \<^verbatim>\<open>isolate.dispose()\<close> itself (the isolate that exceeded its memory
  limit and was disposed by the library). When \<^verbatim>\<open>new Isolate\<close> throws, no isolate was
  created. On a catastrophic error the handler of \<^verbatim>\<open>part_000\<close> delivers the failure at
  once, before any disposal; the disposal still follows if the chain settles.
\<close>

theorem C8_dispose_before_delivery:
  "(delivered (eval_part None None chain dispose_error) \<noteq> None \<longrightarrow>
      Dispose \<in> set (before_delivery (eval_part None None chain dispose_error)))
   \<and> (delivered (eval_index None chain dispose_error) \<noteq> None \<longrightarrow>
      Dispose \<in> set (before_delivery (eval_index None chain dispose_error)))
   \<and> NewIsolate \<notin> set (eval_part (Some e) catastrophic chain dispose_error)
   \<and> NewIsolate \<notin> set (eval_index (Some e) chain dispose_error)
   \<and> delivered (eval_part None (Some e) chain dispose_error) = Some (Rejected (ReasonError e))
   \<and> before_delivery (eval_part None (Some e) chain dispose_error) = [NewIsolate]
   \<and> Dispose \<in> set (eval_part None catastrophic (Some r) dispose_error)"
proof -
  have a: "Dispose \<in> set (before_delivery (eval_part None None chain dispose_error))"
    if "delivered (eval_part None None chain dispose_error) \<noteq> None"
  proof (cases chain)
    case None
    with that show ?thesis by (simp add: eval_part_def)
  next
    case (Some c)
    have "eval_part None None (Some c) dispose_error = NewIsolate # finish_eval 3000 c dispose_error"
      by (simp add: eval_part_def)
    with Some before_delivery_finish_eval [of 3000 c dispose_error] show ?thesis
      by (simp add: before_delivery_def)
  qed
  have b: "Dispose \<in> set (before_delivery (eval_index None chain dispose_error))"
    if "delivered (eval_index None chain dispose_error) \<noteq> None"
  proof (cases chain)
    case None
    with that show ?thesis by (simp add: eval_index_def)
  next
    case (Some c)
    have "eval_index None (Some c) dispose_error = NewIsolate # finish_eval 10000 c dispose_error"
      by (simp add: eval_index_def)
    with Some before_delivery_finish_eval [of 10000 c dispose_error] show ?thesis
      by (simp add: before_delivery_def)
  qed
  have c: "NewIsolate \<notin> set (eval_part (Some e) catastrophic chain dispose_error)"
    "NewIsolate \<notin> set (eval_index (Some e) chain dispose_error)"
    by (simp_all add: eval_part_def eval_index_def)
  have d: "delivered (eval_part None (Some e) chain dispose_error) = Some (Rejected (ReasonError e))"
    "before_delivery (eval_part None (Some e) chain dispose_error) = [NewIsolate]"
    by (simp_all add: eval_part_def before_delivery_def)
  have f: "Dispose \<in> set (eval_part None catastrophic (Some r) dispose_error)"
    by (simp add: eval_part_def finish_eval_def)
  from a b c d f show ?thesis by blast
qed

text \<open>The paths of the witness: a guest error in \<^verbatim>\<open>part_000\<close>; in \<^verbatim>\<open>src/index.ts\<close> an isolate
  killed at its memory limit, where \<^verbatim>\<open>isolate.dispose()\<close> then throws; and in \<^verbatim>\<open>part_000\<close> a
  guest's \<^verbatim>\<open>throw null\<close>, where the handler of \<^verbatim>\<open>.catch\<close> throws.\<close>

theorem C8_dispose_before_delivery_witness:
  "delivered (eval_part None None
        (Some (ChainError (ErrorValue (JsError (lit ''TypeError'') None (lit ''x''))))) None)
      \<noteq> None
   \<and> Dispose \<in> set (before_delivery (eval_part None None
        (Some (ChainError (ErrorValue (JsError (lit ''TypeError'') None (lit ''x''))))) None))
   \<and> delivered (eval_index None
        (Some (ChainError (ErrorValue (JsError (lit ''Error'') None (lit ''memory limit'')))))
        (Some (JsError (lit ''Error'') None (lit ''Isolate is already disposed''))))
      = Some (Rejected (ReasonError (JsError (lit ''Error'') None (lit ''Isolate is already disposed''))))
   \<and> Dispose \<in> set (before_delivery (eval_index None
        (Some (ChainError (ErrorValue (JsError (lit ''Error'') None (lit ''memory limit'')))))
        (Some (JsError (lit ''Error'') None (lit ''Isolate is already disposed'')))))
   \<and> delivered (eval_part None None
        (Some (ChainError (Unreadable (JsError (lit ''TypeError'') None (lit ''null'')))))
        None)
      = Some (Rejected (ReasonError (JsError (lit ''TypeError'') None (lit ''null''))))
   \<and> Dispose \<in> set (before_delivery (eval_part None None
        (Some (ChainError (Unreadable (JsError (lit ''TypeError'') None (lit ''null'')))))
        None))"
proof -
  let ?c1 = "Some (ChainError (ErrorValue (JsError (lit ''TypeError'') None (lit ''x''))))"
  let ?c2 = "Some (ChainError (ErrorValue (JsError (lit ''Error'') None (lit ''memory limit''))))"
  let ?d2 = "Some (JsError (lit ''Error'') None (lit ''Isolate is already disposed''))"
  let ?c3 = "Some (ChainError (Unreadable (JsError (lit ''TypeError'') None (lit ''null''))))"
  have h1: "delivered (eval_part None None ?c1 None) \<noteq> None"
    by (simp add: delivered_eval_part delivered_finish_eval)
  have h2: "delivered (eval_index None ?c2 ?d2)
      = Some (Rejected (ReasonError (JsError (lit ''Error'') None (lit ''Isolate is already disposed''))))"
    by (simp add: delivered_eval_index delivered_finish_eval)
  have h3: "delivered (eval_part None None ?c3 None)
      = Some (Rejected (ReasonError (JsError (lit ''TypeError'') None (lit ''null''))))"
    by (simp add: delivered_eval_part delivered_finish_eval)
  from C8_dispose_before_delivery [where chain = ?c1 and dispose_error = None] h1
  have a: "Dispose \<in> set (before_delivery (eval_part None None ?c1 None))" by blast
  from C8_dispose_before_delivery [where chain = ?c2 and dispose_error = ?d2] h2
  have b: "Dispose \<in> set (before_delivery (eval_index None ?c2 ?d2))" by simp
  from C8_dispose_before_delivery [where chain = ?c3 and dispose_error = None] h3
  have c: "Dispose \<in> set (before_delivery (eval_part None None ?c3 None))" by simp
  from h1 a h2 b h3 c show ?thesis by blast
qed

text \<open>
  C8 as stated fails on the catastrophic path of \<^verbatim>\<open>part_000\<close>: the failure is
  delivered while the isolate exists and \<^verbatim>\<open>isolate.dispose()\<close> has not been called.
\<close>

theorem C8_counterexample:
  "delivered (eval_part None (Some (JsError (lit ''Error'') None (lit ''out of memory'')))
      (Some (ChainError (ErrorValue (JsError (lit ''Error'') None (lit ''Isolate was disposed'')))))
      None)
     = Some (Rejected (ReasonError (JsError (lit ''Error'') None (lit ''out of memory''))))
   \<and> before_delivery (eval_part None (Some (JsError (lit ''Error'') None (lit ''out of memory'')))
      (Some (ChainError (ErrorValue (JsError (lit ''Error'') None (lit ''Isolate was disposed'')))))
      None)
     = [NewIsolate]"
  by (simp add: eval_part_def before_delivery_def)

subsection \<open>Outbound HTTP Bridge: the headers sent\<close>

lemma map_of_update_values:
  "map_of (map (\<lambda>kv. if fst kv = k then (fst kv, f (snd kv)) else kv) kvs) k'
     = map_option (\<lambda>v. if k' = k then f v else v) (map_of kvs k')"
  by (induction kvs) auto

lemma get_prop_update_under:
  "get_prop (Some (update_under k f m)) k'
     = map_option (\<lambda>v. if k' = k then f v else v) (get_prop (Some m) k')"
  by (cases m) (simp_all add: map_of_update_values)

lemma get_prop_delete_other:
  "k' \<noteq> k \<Longrightarrow> get_prop (Some (delete_key k m)) k' = get_prop (Some m) k'"
proof (cases m)
  case (JObj kvs)
  assume "k' \<noteq> k"
  then have "map_of (filter (\<lambda>kv. fst kv \<noteq> k) kvs) k' = map_of kvs k'"
    by (induction kvs) auto
  with JObj show ?thesis by simp
qed simp_all

text \<open>The \<^verbatim>\<open>delete\<close>s leave every property of \<^verbatim>\<open>msg\<close> other than \<^verbatim>\<open>channel\<close> and \<^verbatim>\<open>command\<close>
  as it is, and take only \<^verbatim>\<open>description\<close> out of \<^verbatim>\<open>command\<close>.\<close>

lemma get_prop_trim_other:
  "k \<noteq> lit ''channel'' \<Longrightarrow> k \<noteq> lit ''command'' \<Longrightarrow> get_prop (trim_msg msg) k = get_prop msg k"
  by (cases msg) (simp_all add: trim_msg_def get_prop_update_under option.map_comp o_def option.map_ident)

lemma get_prop_trim_command:
  "get_prop (trim_msg msg) (lit ''command'')
     = map_option (delete_key (lit ''description'')) (get_prop msg (lit ''command''))"
proof -
  have ne: "lit ''command'' \<noteq> lit ''channel''" by (simp add: lit_def)
  show ?thesis
    by (cases msg)
       (simp_all add: trim_msg_def get_prop_update_under option.map_comp o_def ne)
qed

lemma silent_after_trim:
  "get_prop (get_prop (trim_msg msg) (lit ''command'')) (lit ''silent'')
     = get_prop (get_prop msg (lit ''command'')) (lit ''silent'')"
proof -
  have ne: "lit ''silent'' \<noteq> lit ''description''" by (simp add: lit_def)
  show ?thesis
    by (cases "get_prop msg (lit ''command'')")
       (simp_all add: get_prop_trim_command get_prop_delete_other [OF ne])
qed

lemma values_named_update_other:
  "header_name n \<noteq> header_name k \<Longrightarrow> values_named n (AList.update k v es) = values_named n es"
  by (induction es) (auto simp: values_named_def)

lemma values_named_update_mem: "v \<in> set (values_named k (AList.update k v es))"
proof -
  have "(k, v) \<in> set (AList.update k v es)"
    by (induction es) auto
  then have "(k, v) \<in> set (filter (\<lambda>kv. header_name (fst kv) = header_name k) (AList.update k v es))"
    by simp
  then have "snd (k, v) \<in> snd ` set (filter (\<lambda>kv. header_name (fst kv) = header_name k)
      (AList.update k v es))"
    by (rule imageI)
  then show ?thesis
    by (simp add: values_named_def)
qed

lemma values_named_none:
  "\<forall>k' \<in> fst ` set es. header_name k' \<noteq> header_name k \<Longrightarrow> values_named k es = []"
  by (induction es) (auto simp: values_named_def)

text \<open>When no key of the object is another spelling of \<open>k\<close>, the header \<open>k\<close> has the one
  value that the object literal gives it.\<close>

lemma values_named_update_only:
  assumes "distinct (map fst es)"
    and "\<forall>k' \<in> fst ` set es. header_name k' = header_name k \<longrightarrow> k' = k"
  shows "values_named k (AList.update k v es) = [v]"
  using assms
proof (induction es)
  case Nil
  then show ?case by (simp add: values_named_def)
next
  case (Cons p ps)
  show ?case
  proof (cases "fst p = k")
    case True
    with Cons.prems have notin: "k \<notin> fst ` set ps" by auto
    have "\<forall>k' \<in> fst ` set ps. header_name k' \<noteq> header_name k"
    proof
      fix k' assume k': "k' \<in> fst ` set ps"
      with Cons.prems(2) have "header_name k' = header_name k \<longrightarrow> k' = k" by auto
      with notin k' show "header_name k' \<noteq> header_name k" by blast
    qed
    then have "values_named k ps = []" by (rule values_named_none)
    with True show ?thesis by (simp add: values_named_def)
  next
    case False
    with Cons.prems have "header_name (fst p) \<noteq> header_name k" by auto
    moreover from Cons.prems Cons.IH have "values_named k (AList.update k v ps) = [v]" by auto
    ultimately show ?thesis using False by (simp add: values_named_def)
  qed
qed

lemma distinct_own_entries: "distinct (map fst (own_entries v))"
  by (simp add: own_entries_def distinct_clearjunk)

lemma header_sent_part:
  "header_sent (fetch_init_part stringify pd options) n =
     values_named n
       (AList.update (lit ''x-potat-data'') (JStr (stringify pd))
         (AList.update (lit ''User-Agent'') (JStr user_agent)
           (own_entries (get_prop options (lit ''headers'')))))"
  by (simp add: header_sent_def fetch_init_part_def)

lemma header_sent_index:
  "header_sent (fetch_init_index url options) n =
     values_named n
       (AList.update (lit ''User-Agent'') (JStr user_agent)
         (own_entries (get_prop options (lit ''headers''))))"
  by (simp add: header_sent_def fetch_init_index_def)

lemma header_names_differ:
  "header_name (lit ''User-Agent'') \<noteq> header_name (lit ''x-potat-data'')"
  by (simp add: header_name_def lower_ascii_def lit_def)

text \<open>
  C10, as amended. In \<^verbatim>\<open>part_000\<close>, a request that the bridge sends carries the fixed
  string among the values of its \<^verbatim>\<open>User-Agent\<close> header and the JSON of the \<^verbatim>\<open>potatData\<close>
  derived from \<^verbatim>\<open>msg\<close> among the values of its \<^verbatim>\<open>x-potat-data\<close> header. When the caller's
  headers have no key that spells \<^verbatim>\<open>User-Agent\<close> with other letter case, the fixed string
  is the only value of \<^verbatim>\<open>User-Agent\<close>, whatever the caller gave under that key; likewise
  for \<^verbatim>\<open>x-potat-data\<close> and the JSON. Every header of another name carries the caller's
  values. The \<^verbatim>\<open>potatData\<close> has the empty string as \<^verbatim>\<open>id\<close>, the current time as
  \<^verbatim>\<open>timestamp\<close>, \<^verbatim>\<open>"PotatEval"\<close> as \<^verbatim>\<open>platform\<close> and false as \<^verbatim>\<open>isSilent\<close> when \<^verbatim>\<open>msg\<close> has no such
  field (no \<^verbatim>\<open>command.silent\<close> for the last). In \<^verbatim>\<open>src/index.ts\<close>, a request that the bridge
  sends carries the fixed string among the values of \<^verbatim>\<open>User-Agent\<close>, as the only value
  under the same condition, and every header of another name carries the caller's
  values: no \<^verbatim>\<open>x-potat-data\<close> is added.
\<close>

theorem C10_headers_sent:
  "(fst (fetchImplement_part stringify (potatData to_string now msg) url options s)
        = Awaiting u init \<longrightarrow>
      JStr (lit ''Sandbox Unsafe JavaScript Execution Environment - https://github.com/RyanPotat/eval-server/'')
        \<in> set (header_sent init (lit ''User-Agent''))
    \<and> JStr (stringify (potatData to_string now msg))
        \<in> set (header_sent init (lit ''x-potat-data''))
    \<and> ((\<forall>k \<in> fst ` set (own_entries (get_prop options (lit ''headers''))).
           header_name k = header_name (lit ''User-Agent'') \<longrightarrow> k = lit ''User-Agent'') \<longrightarrow>
        header_sent init (lit ''User-Agent'')
          = [JStr (lit ''Sandbox Unsafe JavaScript Execution Environment - https://github.com/RyanPotat/eval-server/'')])
    \<and> ((\<forall>k \<in> fst ` set (own_entries (get_prop options (lit ''headers''))).
           header_name k = header_name (lit ''x-potat-data'') \<longrightarrow> k = lit ''x-potat-data'') \<longrightarrow>
        header_sent init (lit ''x-potat-data'')
          = [JStr (stringify (potatData to_string now msg))])
    \<and> (\<forall>n. header_name n \<noteq> header_name (lit ''User-Agent'')
            \<and> header_name n \<noteq> header_name (lit ''x-potat-data'') \<longrightarrow>
          header_sent init n
            = values_named n (own_entries (get_prop options (lit ''headers'')))))
   \<and> (get_prop msg (lit ''id'') = None \<longrightarrow> id' (potatData to_string now msg) = [])
   \<and> (get_prop msg (lit ''timestamp'') = None \<longrightarrow>
        timestamp (potatData to_string now msg) = JNum now)
   \<and> (get_prop msg (lit ''platform'') = None \<longrightarrow>
        platform (potatData to_string now msg) = JStr (lit ''PotatEval''))
   \<and> (get_prop (get_prop msg (lit ''command'')) (lit ''silent'') = None \<longrightarrow>
        isSilent (potatData to_string now msg) = False)
   \<and> (fst (fetchImplement_index url options s) = Awaiting u' init' \<longrightarrow>
      JStr (lit ''Sandbox Unsafe JavaScript Execution Environment - https://github.com/RyanPotat/eval-server/'')
        \<in> set (header_sent init' (lit ''User-Agent''))
    \<and> ((\<forall>k \<in> fst ` set (own_entries (get_prop options (lit ''headers''))).
           header_name k = header_name (lit ''User-Agent'') \<longrightarrow> k = lit ''User-Agent'') \<longrightarrow>
        header_sent init' (lit ''User-Agent'')
          = [JStr (lit ''Sandbox Unsafe JavaScript Execution Environment - https://github.com/RyanPotat/eval-server/'')])
    \<and> (\<forall>n. header_name n \<noteq> header_name (lit ''User-Agent'') \<longrightarrow>
          header_sent init' n
            = values_named n (own_entries (get_prop options (lit ''headers'')))))"
proof -
  let ?pd = "potatData to_string now msg"
  let ?H = "own_entries (get_prop options (lit ''headers''))"
  let ?UA = "lit ''User-Agent''"
  let ?XP = "lit ''x-potat-data''"
  let ?withUA = "AList.update ?UA (JStr user_agent) ?H"
  note ne = header_names_differ
  have ua_mem: "JStr user_agent \<in> set (values_named ?UA ?withUA)"
    by (rule values_named_update_mem)
  have ua_only: "values_named ?UA ?withUA = [JStr user_agent]"
    if "\<forall>k \<in> fst ` set ?H. header_name k = header_name ?UA \<longrightarrow> k = ?UA"
    using distinct_own_entries that by (rule values_named_update_only)
  have part: "JStr user_agent \<in> set (header_sent init ?UA)
      \<and> JStr (stringify ?pd) \<in> set (header_sent init ?XP)
      \<and> ((\<forall>k \<in> fst ` set ?H. header_name k = header_name ?UA \<longrightarrow> k = ?UA) \<longrightarrow>
          header_sent init ?UA = [JStr user_agent])
      \<and> ((\<forall>k \<in> fst ` set ?H. header_name k = header_name ?XP \<longrightarrow> k = ?XP) \<longrightarrow>
          header_sent init ?XP = [JStr (stringify ?pd)])
      \<and> (\<forall>n. header_name n \<noteq> header_name ?UA \<and> header_name n \<noteq> header_name ?XP \<longrightarrow>
            header_sent init n = values_named n ?H)"
    if "fst (fetchImplement_part stringify ?pd url options s) = Awaiting u init"
  proof -
    from that have init: "init = fetch_init_part stringify ?pd options"
      by (auto simp: fetchImplement_part_def Let_def split: if_splits)
    have sent_ua: "header_sent init ?UA = values_named ?UA ?withUA"
      unfolding init header_sent_part using ne
      by (simp add: values_named_update_other)
    have a: "JStr user_agent \<in> set (header_sent init ?UA)"
      unfolding sent_ua by (rule ua_mem)
    have b: "JStr (stringify ?pd) \<in> set (header_sent init ?XP)"
      unfolding init header_sent_part by (rule values_named_update_mem)
    have c: "header_sent init ?UA = [JStr user_agent]"
      if "\<forall>k \<in> fst ` set ?H. header_name k = header_name ?UA \<longrightarrow> k = ?UA"
      unfolding sent_ua using that by (rule ua_only)
    have d: "header_sent init ?XP = [JStr (stringify ?pd)]"
      if v: "\<forall>k \<in> fst ` set ?H. header_name k = header_name ?XP \<longrightarrow> k = ?XP"
    proof -
      have dist: "distinct (map fst ?withUA)"
        using distinct_own_entries by (rule distinct_update)
      have keys: "\<forall>k \<in> fst ` set ?withUA. header_name k = header_name ?XP \<longrightarrow> k = ?XP"
        using v ne by (simp add: dom_update)
      show ?thesis
        unfolding init header_sent_part using dist keys by (rule values_named_update_only)
    qed
    have e: "header_sent init n = values_named n ?H"
      if "header_name n \<noteq> header_name ?UA \<and> header_name n \<noteq> header_name ?XP" for n
      unfolding init header_sent_part using that
      by (simp add: values_named_update_other)
    from a b c d e show ?thesis by blast
  qed
  have index: "JStr user_agent \<in> set (header_sent init' ?UA)
      \<and> ((\<forall>k \<in> fst ` set ?H. header_name k = header_name ?UA \<longrightarrow> k = ?UA) \<longrightarrow>
          header_sent init' ?UA = [JStr user_agent])
      \<and> (\<forall>n. header_name n \<noteq> header_name ?UA \<longrightarrow> header_sent init' n = values_named n ?H)"
    if "fst (fetchImplement_index url options s) = Awaiting u' init'"
  proof -
    from that have init: "init' = fetch_init_index url options"
      by (auto simp: fetchImplement_index_def Let_def split: if_splits)
    have e: "header_sent init' n = values_named n ?H"
      if "header_name n \<noteq> header_name ?UA" for n
      unfolding init header_sent_index using that
      by (simp add: values_named_update_other)
    from ua_mem ua_only e show ?thesis
      unfolding init header_sent_index by blast
  qed
  have ne': "lit ''id'' \<noteq> lit ''channel''" "lit ''id'' \<noteq> lit ''command''"
    "lit ''timestamp'' \<noteq> lit ''channel''" "lit ''timestamp'' \<noteq> lit ''command''"
    "lit ''platform'' \<noteq> lit ''channel''" "lit ''platform'' \<noteq> lit ''command''"
    by (simp_all add: lit_def)
  have d1: "id' ?pd = []" if "get_prop msg (lit ''id'') = None"
    using that by (simp add: potatData_def Let_def get_prop_trim_other ne')
  have d2: "timestamp ?pd = JNum now" if "get_prop msg (lit ''timestamp'') = None"
    using that by (simp add: potatData_def Let_def get_prop_trim_other ne')
  have d3: "platform ?pd = JStr (lit ''PotatEval'')" if "get_prop msg (lit ''platform'') = None"
    using that by (simp add: potatData_def Let_def get_prop_trim_other ne')
  have d4: "isSilent ?pd = False"
    if "get_prop (get_prop msg (lit ''command'')) (lit ''silent'') = None"
    using that by (simp add: potatData_def Let_def silent_after_trim)
  from part index d1 d2 d3 d4 show ?thesis
    unfolding user_agent_def by blast
qed

text \<open>The witness: a caller who gives \<^verbatim>\<open>accept\<close> and its own \<^verbatim>\<open>User-Agent\<close>, a message without
  \<^verbatim>\<open>id\<close>, \<^verbatim>\<open>timestamp\<close>, \<^verbatim>\<open>platform\<close> and \<^verbatim>\<open>command\<close>, and a stand-in for \<^verbatim>\<open>JSON.stringify\<close> that
  prints the platform.\<close>

theorem C10_headers_sent_witness:
  "header_sent
      (fetch_init_part (\<lambda>p. lit ''platform='' @ template (\<lambda>v. []) (platform p))
         (potatData (\<lambda>v. []) 1700000000000 (Some (JObj [(lit ''user'', JStr (lit ''bob''))])))
         (Some (JObj [(lit ''headers'', JObj [(lit ''accept'', JStr (lit ''text/plain'')),
                                             (lit ''User-Agent'', JStr (lit ''mine''))])])))
      (lit ''User-Agent'')
     = [JStr (lit ''Sandbox Unsafe JavaScript Execution Environment - https://github.com/RyanPotat/eval-server/'')]
   \<and> header_sent
      (fetch_init_part (\<lambda>p. lit ''platform='' @ template (\<lambda>v. []) (platform p))
         (potatData (\<lambda>v. []) 1700000000000 (Some (JObj [(lit ''user'', JStr (lit ''bob''))])))
         (Some (JObj [(lit ''headers'', JObj [(lit ''accept'', JStr (lit ''text/plain'')),
                                             (lit ''User-Agent'', JStr (lit ''mine''))])])))
      (lit ''x-potat-data'')
     = [JStr (lit ''platform=PotatEval'')]
   \<and> header_sent
      (fetch_init_part (\<lambda>p. lit ''platform='' @ template (\<lambda>v. []) (platform p))
         (potatData (\<lambda>v. []) 1700000000000 (Some (JObj [(lit ''user'', JStr (lit ''bob''))])))
         (Some (JObj [(lit ''headers'', JObj [(lit ''accept'', JStr (lit ''text/plain'')),
                                             (lit ''User-Agent'', JStr (lit ''mine''))])])))
      (lit ''accept'')
     = [JStr (lit ''text/plain'')]
   \<and> id' (potatData (\<lambda>v. []) 1700000000000 (Some (JObj [(lit ''user'', JStr (lit ''bob''))])))
     = []
   \<and> timestamp (potatData (\<lambda>v. []) 1700000000000 (Some (JObj [(lit ''user'', JStr (lit ''bob''))])))
     = JNum 1700000000000
   \<and> platform (potatData (\<lambda>v. []) 1700000000000 (Some (JObj [(lit ''user'', JStr (lit ''bob''))])))
     = JStr (lit ''PotatEval'')
   \<and> isSilent (potatData (\<lambda>v. []) 1700000000000 (Some (JObj [(lit ''user'', JStr (lit ''bob''))])))
     = False
   \<and> header_sent
      (fetch_init_index (lit ''http://a/'')
         (Some (JObj [(lit ''headers'', JObj [(lit ''accept'', JStr (lit ''text/plain'')),
                                             (lit ''User-Agent'', JStr (lit ''mine''))])])))
      (lit ''User-Agent'')
     = [JStr (lit ''Sandbox Unsafe JavaScript Execution Environment - https://github.com/RyanPotat/eval-server/'')]"
proof -
  let ?msg = "Some (JObj [(lit ''user'', JStr (lit ''bob''))])"
  let ?str = "\<lambda>p. lit ''platform='' @ template (\<lambda>v. []) (platform p)"
  let ?pd = "potatData (\<lambda>v. []) 1700000000000 ?msg"
  let ?opts = "Some (JObj [(lit ''headers'', JObj [(lit ''accept'', JStr (lit ''text/plain'')),
                                             (lit ''User-Agent'', JStr (lit ''mine''))])])"
  let ?s = "new_server \<lparr>port = 8080, auth = lit ''secret'', maxFetchConcurrency = None\<rparr>"
  let ?url = "lit ''http://a/''"
  let ?H = "own_entries (get_prop ?opts (lit ''headers''))"
  have h1: "fst (fetchImplement_part ?str ?pd ?url ?opts ?s)
      = Awaiting ?url (fetch_init_part ?str ?pd ?opts)"
    by (simp add: fetchImplement_part_def new_server_def Let_def)
  have h2: "fst (fetchImplement_index ?url ?opts ?s) = Awaiting ?url (fetch_init_index ?url ?opts)"
    by (simp add: fetchImplement_index_def new_server_def Let_def)
  have h3: "get_prop ?msg (lit ''id'') = None" "get_prop ?msg (lit ''timestamp'') = None"
    "get_prop ?msg (lit ''platform'') = None"
    "get_prop (get_prop ?msg (lit ''command'')) (lit ''silent'') = None"
    by (simp_all add: lit_def)
  have H: "?H = [(lit ''accept'', JStr (lit ''text/plain'')), (lit ''User-Agent'', JStr (lit ''mine''))]"
    by (simp add: own_entries_def lit_def)
  have h4: "\<forall>k \<in> fst ` set ?H. header_name k = header_name (lit ''User-Agent'')
      \<longrightarrow> k = lit ''User-Agent''"
    unfolding H by (simp add: header_name_def lower_ascii_def lit_def)
  have h5: "\<forall>k \<in> fst ` set ?H. header_name k = header_name (lit ''x-potat-data'')
      \<longrightarrow> k = lit ''x-potat-data''"
    unfolding H by (simp add: header_name_def lower_ascii_def lit_def)
  have h6: "header_name (lit ''accept'') \<noteq> header_name (lit ''User-Agent'')
      \<and> header_name (lit ''accept'') \<noteq> header_name (lit ''x-potat-data'')"
    by (simp add: header_name_def lower_ascii_def lit_def)
  note th = C10_headers_sent [where stringify = ?str and to_string = "\<lambda>v. []"
      and now = 1700000000000 and msg = ?msg and url = ?url and options = ?opts and s = ?s
      and u = ?url and init = "fetch_init_part ?str ?pd ?opts"
      and u' = ?url and init' = "fetch_init_index ?url ?opts"]
  from th h3 have c: "id' ?pd = []" "timestamp ?pd = JNum 1700000000000"
    "platform ?pd = JStr (lit ''PotatEval'')" "isSilent ?pd = False"
    by blast+
  from th h1 h4 have a: "header_sent (fetch_init_part ?str ?pd ?opts) (lit ''User-Agent'')
      = [JStr (lit ''Sandbox Unsafe JavaScript Execution Environment - https://github.com/RyanPotat/eval-server/'')]"
    by blast
  from th h1 h5 have "header_sent (fetch_init_part ?str ?pd ?opts) (lit ''x-potat-data'')
      = [JStr (?str ?pd)]"
    by blast
  then have x: "header_sent (fetch_init_part ?str ?pd ?opts) (lit ''x-potat-data'')
      = [JStr (lit ''platform=PotatEval'')]"
    unfolding c(3) by (simp add: lit_def)
  from th h1 h6 have "header_sent (fetch_init_part ?str ?pd ?opts) (lit ''accept'')
      = values_named (lit ''accept'') ?H"
    by blast
  then have b: "header_sent (fetch_init_part ?str ?pd ?opts) (lit ''accept'')
      = [JStr (lit ''text/plain'')]"
    unfolding H by (simp add: values_named_def header_name_def lower_ascii_def lit_def)
  from th h2 h4 have d: "header_sent (fetch_init_index ?url ?opts) (lit ''User-Agent'')
      = [JStr (lit ''Sandbox Unsafe JavaScript Execution Environment - https://github.com/RyanPotat/eval-server/'')]"
    by blast
  from a x b c d show ?thesis by blast
qed

text \<open>
  C10 as stated fails in two places. In \<^verbatim>\<open>src/index.ts\<close> the request is sent and has no
  \<^verbatim>\<open>x-potat-data\<close> header. And in \<^verbatim>\<open>part_000\<close> a caller who spells the header \<^verbatim>\<open>user-agent\<close>
  keeps its own value in front of the fixed one: the object has both keys, and they are
  one header of the request.
\<close>

theorem C10_counterexample:
  "fst (fetchImplement_index (lit ''http://a/'') None
         (new_server \<lparr>port = 8080, auth = lit ''secret'', maxFetchConcurrency = None\<rparr>))
     = Awaiting (lit ''http://a/'') (fetch_init_index (lit ''http://a/'') None)
   \<and> header_sent (fetch_init_index (lit ''http://a/'') None) (lit ''x-potat-data'') = []
   \<and> header_sent
        (fetch_init_part id'
           \<lparr>user = None, channel = None, id' = [], timestamp = JNum 0,
             platform = JStr (lit ''PotatEval''), isSilent = False\<rparr>
           (Some (JObj [(lit ''headers'', JObj [(lit ''user-agent'', JStr (lit ''mine''))])])))
        (lit ''User-Agent'')
     = [JStr (lit ''mine''),
        JStr (lit ''Sandbox Unsafe JavaScript Execution Environment - https://github.com/RyanPotat/eval-server/'')]"
proof -
  have a: "fst (fetchImplement_index (lit ''http://a/'') None
         (new_server \<lparr>port = 8080, auth = lit ''secret'', maxFetchConcurrency = None\<rparr>))
     = Awaiting (lit ''http://a/'') (fetch_init_index (lit ''http://a/'') None)"
    by (simp add: fetchImplement_index_def new_server_def Let_def)
  have b: "header_sent (fetch_init_index (lit ''http://a/'') None) (lit ''x-potat-data'') = []"
    by (simp add: header_sent_index own_entries_def values_named_def header_name_def
        lower_ascii_def lit_def)
  have H: "own_entries (get_prop
        (Some (JObj [(lit ''headers'', JObj [(lit ''user-agent'', JStr (lit ''mine''))])]))
        (lit ''headers''))
      = [(lit ''user-agent'', JStr (lit ''mine''))]"
    by (simp add: own_entries_def lit_def)
  have c: "header_sent
        (fetch_init_part id'
           \<lparr>user = None, channel = None, id' = [], timestamp = JNum 0,
             platform = JStr (lit ''PotatEval''), isSilent = False\<rparr>
           (Some (JObj [(lit ''headers'', JObj [(lit ''user-agent'', JStr (lit ''mine''))])])))
        (lit ''User-Agent'')
     = [JStr (lit ''mine''), JStr user_agent]"
    unfolding header_sent_part H
    by (simp add: values_named_def header_name_def lower_ascii_def lit_def user_agent_def)
  from a b c show ?thesis unfolding user_agent_def by blast
qed

subsection \<open>Address guard on DNS answers\<close>

lemma check_addresses_blocks:
  "\<exists>a \<in> set as. isPrivate (address_of a) \<Longrightarrow>
     \<exists>i. isPrivate i \<and> i \<in> address_of ` set as \<and> check_addresses isPrivate as = Inl (access_denied i)"
  by (induction as) (auto simp: throwIfPrivateIP_def)

lemma check_addresses_passes:
  "\<forall>a \<in> set as. \<not> isPrivate (address_of a) \<Longrightarrow> check_addresses isPrivate as = Inr ()"
  by (induction as) (auto simp: throwIfPrivateIP_def)

text \<open>
  In \<^verbatim>\<open>part_000\<close> an answer with a private address among its addresses ends in a lookup
  error: no connection is opened, and the bridge hands the guest a response of status 400
  that names the refused address. An answer without one is passed on unchanged.
\<close>

lemma dnsLookup_blocks_private:
  assumes "\<exists>a \<in> set (addresses_of addr). isPrivate (address_of a)"
  shows "\<exists>i. isPrivate i \<and> i \<in> address_of ` set (addresses_of addr)
    \<and> dnsLookup isPrivate (DnsAnswer addr fam) = CbError (access_denied i)
    \<and> connect_part isPrivate (DnsAnswer addr fam) = [SocketError (access_denied i)]
    \<and> catch_part (fetch_failed (access_denied i))
        = \<lparr>body = Text (lit ''Request failed - TypeError: Error: Access to '' @ i
                         @ lit '' is disallowed''),
           status = 400\<rparr>"
proof -
  from check_addresses_blocks [OF assms] obtain i where i: "isPrivate i"
    "i \<in> address_of ` set (addresses_of addr)"
    "check_addresses isPrivate (addresses_of addr) = Inl (access_denied i)"
    by blast
  have "catch_part (fetch_failed (access_denied i))
        = \<lparr>body = Text (lit ''Request failed - TypeError: Error: Access to '' @ i
                         @ lit '' is disallowed''),
           status = 400\<rparr>"
    by (simp add: catch_part_def fetch_failed_def access_denied_def cause_or_message_def lit_def)
  with i show ?thesis
    by (auto simp: dnsLookup_def connect_part_def)
qed

lemma dnsLookup_passes_public:
  "\<forall>a \<in> set (addresses_of addr). \<not> isPrivate (address_of a) \<Longrightarrow>
     dnsLookup isPrivate (DnsAnswer addr fam) = CbResult addr fam"
  by (simp add: dnsLookup_def check_addresses_passes)

text \<open>
  C1 on \<^verbatim>\<open>src/index.ts\<close>. The host name resolves to a public and a private address, and
  \<^verbatim>\<open>10.0.0.1\<close> is the address \<^verbatim>\<open>ip.isPrivate\<close> accepts. \<^verbatim>\<open>EvalDispatcher.dispatch\<close> first hands
  the request to the inner dispatcher, which connects to the target, and only afterwards
  reports the refused address to the handler: the guard does not hold the connection back.
\<close>

theorem C1_index_dispatches_before_guard:
  "dispatch_index ((=) (lit ''10.0.0.1''))
     (DnsAnswer (AddressArray [LookupAddress (lit ''93.184.216.34'') 4,
                               LookupAddress (lit ''10.0.0.1'') 4]) None)
   = [InnerDispatch, HandlerError (access_denied (lit ''10.0.0.1''))]"
  by (simp add: dispatch_index_def lit_def)

end

